theory Spec2Isabelle
  imports Complex_Main "HOL-Library.Sublist"
begin

section \<open>Python strings\<close>

text \<open>
  A Python \<open>str\<close> is modelled as a \<open>string\<close>, a list of 8-bit characters: the model
  covers the strings whose code points are below 256. The operations below are the
  string methods the analyzers call, restricted to that range.
\<close>

text \<open>\<open>sub in s\<close>: \<open>sub\<close> occurs in \<open>s\<close> as a contiguous substring.\<close>

fun py_in :: "string \<Rightarrow> string \<Rightarrow> bool" where
  "py_in sub [] = (sub = [])"
| "py_in sub (c # cs) = (prefix sub (c # cs) \<or> py_in sub cs)"

text \<open>\<open>str.lower()\<close>: A-Z and the upper-case letters of Latin-1 move up by 32.\<close>

definition lower_char :: "char \<Rightarrow> char" where
  "lower_char c =
     (let n = (of_char c :: nat)
      in if (65 \<le> n \<and> n \<le> 90) \<or> (192 \<le> n \<and> n \<le> 222 \<and> n \<noteq> 215)
         then char_of (n + 32) else c)"

definition lower :: "string \<Rightarrow> string" where
  "lower s = map lower_char s"

text \<open>
  \<open>str.upper()\<close>: a-z and the lower-case letters of Latin-1 move down by 32, the sharp s
  (223) becomes \<open>SS\<close>. The micro sign (181) and the y with diaeresis (255) have upper-case
  forms above 255; the model keeps them, which changes no comparison with the ASCII
  indicators of the fix generator.
\<close>

definition upper_char :: "char \<Rightarrow> string" where
  "upper_char c =
     (let n = (of_char c :: nat)
      in if (97 \<le> n \<and> n \<le> 122) \<or> (224 \<le> n \<and> n \<le> 254 \<and> n \<noteq> 247)
         then [char_of (n - 32)]
         else if n = 223 then ''SS'' else [c])"

definition upper :: "string \<Rightarrow> string" where
  "upper s = concat (map upper_char s)"

text \<open>\<open>s.replace(c, '')\<close> for a one-character \<open>c\<close>.\<close>

definition remove_char :: "char \<Rightarrow> string \<Rightarrow> string" where
  "remove_char c s = filter (\<lambda>d. d \<noteq> c) s"

text \<open>\<open>str.isspace\<close> on one character, which is also the class \<open>\s\<close> of \<open>re\<close>.\<close>

definition isspace :: "char \<Rightarrow> bool" where
  "isspace c = ((of_char c :: nat) \<in> {9, 10, 11, 12, 13, 28, 29, 30, 31, 32, 133, 160})"

text \<open>\<open>str.strip()\<close>.\<close>

definition strip :: "string \<Rightarrow> string" where
  "strip s = rev (dropWhile isspace (rev (dropWhile isspace s)))"

text \<open>\<open>s.find(c)\<close> and \<open>s.rfind(c)\<close> for a one-character \<open>c\<close>; \<open>-1\<close> when absent.\<close>

fun find_char :: "char \<Rightarrow> string \<Rightarrow> int" where
  "find_char c [] = -1"
| "find_char c (d # ds) =
     (if d = c then 0
      else (let r = find_char c ds in if r < 0 then -1 else r + 1))"

fun rfind_char :: "char \<Rightarrow> string \<Rightarrow> int" where
  "rfind_char c [] = -1"
| "rfind_char c (d # ds) =
     (let r = rfind_char c ds
      in if 0 \<le> r then r + 1 else if d = c then 0 else -1)"

text \<open>
  The slice \<open>xs[a:b]\<close> with integer bounds: a negative bound counts from the end,
  and bounds are clipped to the sequence.
\<close>

definition slice_index :: "nat \<Rightarrow> int \<Rightarrow> nat" where
  "slice_index n i = (if i < 0 then nat (max 0 (int n + i)) else min n (nat i))"

definition py_slice :: "'a list \<Rightarrow> int \<Rightarrow> int \<Rightarrow> 'a list" where
  "py_slice xs a b =
     (let lo = slice_index (length xs) a; hi = slice_index (length xs) b
      in take (hi - lo) (drop lo xs))"

text \<open>
  \<open>str.splitlines()\<close>: the line boundaries below 256 are LF, CR, CR LF, VT, FF, FS, GS,
  RS and NEL; a final boundary does not open an empty last line.
\<close>

definition is_linebreak :: "char \<Rightarrow> bool" where
  "is_linebreak c = ((of_char c :: nat) \<in> {10, 11, 12, 13, 28, 29, 30, 133})"

fun splitlines_from :: "string \<Rightarrow> string \<Rightarrow> string list" where
  "splitlines_from cur [] = (if cur = [] then [] else [rev cur])"
| "splitlines_from cur [c] =
     (if is_linebreak c then [rev cur] else [rev (c # cur)])"
| "splitlines_from cur (c # d # ds) =
     (if c = CHR 0x0D \<and> d = CHR 0x0A then rev cur # splitlines_from [] ds
      else if is_linebreak c then rev cur # splitlines_from [] (d # ds)
      else splitlines_from (c # cur) (d # ds))"

definition splitlines :: "string \<Rightarrow> string list" where
  "splitlines s = splitlines_from [] s"

text \<open>\<open>sep.join(xs)\<close>.\<close>

fun join :: "string \<Rightarrow> string list \<Rightarrow> string" where
  "join sep [] = []"
| "join sep [x] = x"
| "join sep (x # y # ys) = x @ sep @ join sep (y # ys)"

text \<open>\<open>s.endswith(suf)\<close>.\<close>

definition endswith :: "string \<Rightarrow> string \<Rightarrow> bool" where
  "endswith s suf = suffix suf s"

section \<open>Values exchanged with the collaborators\<close>

text \<open>
  The values \<open>json.loads\<close> builds. A number is a rational: Python's \<open>int\<close> and the
  value of a \<open>float\<close>, whose rounding, infinities and NaN are not modelled. An object
  is an association list read by its first binding for a key.
\<close>

datatype json =
    JNull
  | JBool bool
  | JNum rat
  | JStr string
  | JArr "json list"
  | JObj "(string \<times> json) list"

text \<open>Exceptions, as values: the class and the message.\<close>

datatype py_error =
    AttributeError string
  | TypeError string
  | ValueError string
  | KeyError string
  | JSONDecodeError string
  | BackendError string

fun err_str :: "py_error \<Rightarrow> string" where
  "err_str (AttributeError m) = m"
| "err_str (TypeError m) = m"
| "err_str (ValueError m) = m"
| "err_str (KeyError m) = m"
| "err_str (JSONDecodeError m) = m"
| "err_str (BackendError m) = m"

text \<open>Truth value of a Python object, as \<open>if x:\<close> tests it.\<close>

fun truthy :: "json \<Rightarrow> bool" where
  "truthy JNull = False"
| "truthy (JBool b) = b"
| "truthy (JNum r) = (r \<noteq> 0)"
| "truthy (JStr s) = (s \<noteq> [])"
| "truthy (JArr xs) = (xs \<noteq> [])"
| "truthy (JObj kvs) = (kvs \<noteq> [])"

text \<open>\<open>d.get(k, default)\<close>: an AttributeError when \<open>d\<close> is not a dict.\<close>

fun dict_get :: "json \<Rightarrow> string \<Rightarrow> json \<Rightarrow> py_error + json" where
  "dict_get (JObj kvs) k d = Inr (case map_of kvs k of Some v \<Rightarrow> v | None \<Rightarrow> d)"
| "dict_get _ k d = Inl (AttributeError ''object has no attribute get'')"

text \<open>The number a value is in arithmetic with a float; a TypeError for the others.\<close>

fun as_number :: "json \<Rightarrow> py_error + rat" where
  "as_number (JNum r) = Inr r"
| "as_number (JBool b) = Inr (if b then 1 else 0)"
| "as_number _ = Inl (TypeError ''unsupported operand type(s)'')"

text \<open>
  The outer-braces extraction the three analyzers share: after \<open>strip\<close>, the text from
  the first opening brace to the last closing brace when there is one after the other,
  the whole text otherwise. This is the string handed to \<open>json.loads\<close>.
\<close>

definition extract_json :: "string \<Rightarrow> string" where
  "extract_json response0 =
     (let response = strip response0;
          start_idx = find_char CHR ''{'' response;
          end_idx = rfind_char CHR ''}'' response + 1
      in if start_idx \<ge> 0 \<and> end_idx > start_idx
         then py_slice response start_idx end_idx
         else response)"

text \<open>
  \<open>json.loads\<close> belongs to Python's library: the definitions take it as the parameter
  \<open>loads\<close>, with \<open>None\<close> for a JSONDecodeError. The answer of the model backend to one
  call is a parameter as well: the text returned, or the exception raised.
\<close>

type_synonym loads_fn = "string \<Rightarrow> json option"

record finding =
  key :: string
  rule_key :: string
  rule_name :: string
  severity :: string
  message :: string
  file_path :: string
  line :: int
  status :: string
  project :: string
  component :: string
  creation_date :: string
  language :: "string option"

section \<open>Risk assessment\<close>

record RiskAssessment =
  risk_score :: rat
  priority :: string
  exploitability :: int
  impact :: int
  exposure :: int
  confidence :: rat
  justification :: json
  business_context :: json
  recommended_sla :: string

definition RULE_EXPLOITABILITY :: "(string \<times> int) list" where
  "RULE_EXPLOITABILITY =
     [(''sql_injection'', 10), (''code_injection'', 10), (''command_injection'', 10),
      (''deserialization'', 9),
      (''auth_bypass'', 9), (''privilege_escalation'', 8), (''session_fixation'', 8),
      (''xss'', 7), (''path_traversal'', 7), (''xxe'', 8), (''ssrf'', 7),
      (''weak_crypto'', 6), (''hardcoded_secret'', 6), (''insecure_random'', 5),
      (''null_pointer'', 3), (''resource_leak'', 4), (''race_condition'', 5)]"

definition HIGH_IMPACT_PATHS :: "string list" where
  "HIGH_IMPACT_PATHS =
     [''payment'', ''auth'', ''login'', ''user'', ''account'', ''billing'', ''order'',
      ''transaction'', ''admin'', ''security'']"

definition MEDIUM_IMPACT_PATHS :: "string list" where
  "MEDIUM_IMPACT_PATHS = [''api'', ''service'', ''controller'', ''handler'']"

definition LOW_IMPACT_PATHS :: "string list" where
  "LOW_IMPACT_PATHS = [''test'', ''mock'', ''util'', ''helper'', ''config'']"

text \<open>The loop over the table: the score of the first category found in the rule key.\<close>

fun first_category :: "(string \<times> int) list \<Rightarrow> string \<Rightarrow> int option" where
  "first_category [] rk = None"
| "first_category ((category, score) # rest) rk =
     (if py_in (remove_char CHR ''_'' category)
               (remove_char CHR ''-'' (remove_char CHR '':'' rk))
      then Some score else first_category rest rk)"

definition severity_map :: "(string \<times> int) list" where
  "severity_map = [(''CRITICAL'', 8), (''HIGH'', 6), (''MEDIUM'', 4), (''LOW'', 2)]"

text \<open>
  \<open>rule_details\<close> is what the finding source returned for the rule, or \<open>None\<close>;
  \<open>.lower()\<close> on a type that is not a string is an AttributeError.
\<close>

definition rule_type_score :: "json \<Rightarrow> py_error + int option" where
  "rule_type_score rd =
     (case dict_get rd ''type'' (JStr []) of
        Inl e \<Rightarrow> Inl e
      | Inr (JStr t) \<Rightarrow>
          (let rule_type = lower t
           in if py_in ''vulnerability'' rule_type then Inr (Some 7)
              else if py_in ''security'' rule_type then Inr (Some 6)
              else if py_in ''bug'' rule_type then Inr (Some 4)
              else Inr None)
      | Inr _ \<Rightarrow> Inl (AttributeError ''object has no attribute lower''))"

definition calculate_exploitability :: "finding \<Rightarrow> json option \<Rightarrow> py_error + int" where
  "calculate_exploitability f rule_details =
     (case first_category RULE_EXPLOITABILITY (lower (rule_key f)) of
        Some score \<Rightarrow> Inr score
      | None \<Rightarrow>
          (let by_severity =
                 (case map_of severity_map (severity f) of Some v \<Rightarrow> v | None \<Rightarrow> 5)
           in case rule_details of
                None \<Rightarrow> Inr by_severity
              | Some rd \<Rightarrow>
                  if truthy rd
                  then (case rule_type_score rd of
                          Inl e \<Rightarrow> Inl e
                        | Inr (Some s) \<Rightarrow> Inr s
                        | Inr None \<Rightarrow> Inr by_severity)
                  else Inr by_severity))"

text \<open>
  The path patterns are plain words, so \<open>re.search\<close> of one is a substring test.
\<close>

definition any_in :: "string list \<Rightarrow> string \<Rightarrow> bool" where
  "any_in pats s = list_ex (\<lambda>p. py_in p s) pats"

definition sensitive_keywords :: "(string \<times> int) list" where
  "sensitive_keywords =
     [(''password'', 9), (''credit_card'', 10), (''ssn'', 10), (''encrypt'', 8),
      (''decrypt'', 8), (''token'', 7), (''session'', 7), (''database'', 7), (''sql'', 7)]"

definition calculate_impact :: "finding \<Rightarrow> string \<Rightarrow> int" where
  "calculate_impact f code_context =
     (let fp = lower (file_path f);
          score0 = (if any_in HIGH_IMPACT_PATHS fp then 9 else 5);
          score1 = (if score0 = 5 \<and> any_in MEDIUM_IMPACT_PATHS fp then 6 else score0);
          score2 = (if any_in LOW_IMPACT_PATHS fp then min score1 3 else score1);
          code_lower = lower code_context;
          score3 = fold (\<lambda>(keyword, keyword_score) score.
                           if py_in keyword code_lower then max score keyword_score
                           else score)
                        sensitive_keywords score2
      in min score3 10)"

definition api_indicators :: "string list" where
  "api_indicators =
     [''@RestController'', ''@GetMapping'', ''@PostMapping'', ''@RequestMapping'',
      ''@Path'', ''app.route'', ''@app.get'', ''router.get'']"

definition auth_patterns :: "string list" where
  "auth_patterns =
     [''@PreAuthorize'', ''@Secured'', ''@RolesAllowed'', ''require_login'',
      ''login_required'', ''@login_required'']"

definition calculate_exposure :: "finding \<Rightarrow> string \<Rightarrow> int" where
  "calculate_exposure f code_context =
     (let score0 = (if list_ex (\<lambda>i. py_in i code_context) api_indicators then 9 else 5);
          score1 = (if py_in ''private '' code_context \<or> py_in ''internal '' code_context
                    then min score0 5 else score0);
          score2 = (if py_in ''test'' (lower (file_path f)) then 1 else score1);
          score3 = (if list_ex (\<lambda>p. py_in p code_context) auth_patterns
                    then max 1 (score2 - 3) else score2)
      in min score3 10)"

definition fallback_analysis :: json where
  "fallback_analysis =
     JObj [(''justification'',
            JStr ''Automated risk assessment based on rule severity and code location''),
           (''business_context'', JStr ''Unknown''),
           (''confidence'', JNum (7 / 10))]"

text \<open>
  \<open>_get_contextual_analysis\<close>: \<open>answer\<close> is the outcome of the call to the model backend.
  Every exception of the body, the backend's or the parser's, gives the fallback.
\<close>

definition get_contextual_analysis :: "loads_fn \<Rightarrow> py_error + string \<Rightarrow> json" where
  "get_contextual_analysis loads answer =
     (case answer of
        Inl e \<Rightarrow> fallback_analysis
      | Inr response \<Rightarrow>
          (case loads (extract_json response) of
             None \<Rightarrow> fallback_analysis
           | Some v \<Rightarrow> v))"

definition calculate_priority :: "rat \<Rightarrow> string" where
  "calculate_priority rs =
     (if rs \<ge> 8 then ''P0''
      else if rs \<ge> 6 then ''P1''
      else if rs \<ge> 4 then ''P2''
      else ''P3'')"

definition sla_map :: "(string \<times> string) list" where
  "sla_map = [(''P0'', ''24 hours''), (''P1'', ''1 week''), (''P2'', ''2 weeks''),
              (''P3'', ''1 month'')]"

definition calculate_sla :: "string \<Rightarrow> string" where
  "calculate_sla p = (case map_of sla_map p of Some s \<Rightarrow> s | None \<Rightarrow> ''2 weeks'')"

text \<open>The body of the \<open>try\<close> block of \<open>assess\<close>: \<open>Inl\<close> is the exception it raises.\<close>

definition assess_try ::
  "loads_fn \<Rightarrow> py_error + string \<Rightarrow> finding \<Rightarrow> string \<Rightarrow> json option
     \<Rightarrow> py_error + RiskAssessment" where
  "assess_try loads answer f code_context rule_details =
     (case calculate_exploitability f rule_details of
        Inl e \<Rightarrow> Inl e
      | Inr expl \<Rightarrow>
          (let imp = calculate_impact f code_context;
               expo = calculate_exposure f code_context;
               contextual_analysis = get_contextual_analysis loads answer
           in case dict_get contextual_analysis ''confidence'' (JNum (8 / 10)) of
                Inl e \<Rightarrow> Inl e
              | Inr cv \<Rightarrow>
                  (case as_number cv of
                     Inl e \<Rightarrow> Inl e
                   | Inr conf \<Rightarrow>
                       (let rs = of_int (expl * imp * expo) / 100 * conf;
                            prio = calculate_priority rs;
                            sla = calculate_sla prio
                        in case dict_get contextual_analysis ''justification'' (JStr []) of
                             Inl e \<Rightarrow> Inl e
                           | Inr just \<Rightarrow>
                               (case dict_get contextual_analysis ''business_context''
                                       (JStr []) of
                                  Inl e \<Rightarrow> Inl e
                                | Inr bc \<Rightarrow>
                                    Inr \<lparr>risk_score = rs, priority = prio,
                                         exploitability = expl, impact = imp,
                                         exposure = expo, confidence = conf,
                                         justification = just, business_context = bc,
                                         recommended_sla = sla\<rparr>)))))"

text \<open>The assessment the \<open>except\<close> block of \<open>assess\<close> returns.\<close>

definition error_assessment :: "py_error \<Rightarrow> RiskAssessment" where
  "error_assessment e =
     \<lparr>risk_score = 7, priority = ''P1'', exploitability = 7, impact = 7, exposure = 7,
      confidence = 1 / 2, justification = JStr (''Assessment error: '' @ err_str e),
      business_context = JStr ''Unknown'', recommended_sla = ''1 week''\<rparr>"

definition assess ::
  "loads_fn \<Rightarrow> py_error + string \<Rightarrow> finding \<Rightarrow> string \<Rightarrow> json option \<Rightarrow> RiskAssessment" where
  "assess loads answer f code_context rule_details =
     (case assess_try loads answer f code_context rule_details of
        Inr ra \<Rightarrow> ra
      | Inl e \<Rightarrow> error_assessment e)"

section \<open>Fix generation and validation\<close>

record FixValidation =
  is_safe :: bool
  checks_passed :: "string list"
  checks_failed :: "string list"
  warnings :: "string list"

record FixResult =
  fixed_code :: string
  diff :: string
  explanation :: json
  test_suggestions :: json
  validation :: FixValidation
  fix_confidence :: json

text \<open>
  The library functions the analyzers call: \<open>json.loads\<close>, \<open>float\<close> on a string
  (\<open>None\<close> for a ValueError) and the unified diff of \<open>difflib\<close>, as \<open>_create_diff\<close>
  joins it from the two texts.
\<close>

record pylib =
  json_loads :: loads_fn
  str_to_float :: "string \<Rightarrow> rat option"
  unified_diff :: "string \<Rightarrow> string \<Rightarrow> string"

definition FIXABLE_PATTERNS :: "(string \<times> string list) list" where
  "FIXABLE_PATTERNS =
     [(''null_pointer'', [''S2259'', ''S2637'', ''NP_'']),
      (''resource_leak'', [''S2095'', ''OBL_'']),
      (''sql_injection'', [''S3649'', ''S2077'', ''SQL_'']),
      (''hardcoded_credentials'', [''S2068'', ''S6290'']),
      (''insecure_random'', [''S2245'', ''S2119'']),
      (''path_traversal'', [''S2083'', ''PATH_'']),
      (''weak_crypto'', [''S4426'', ''S5542''])]"

fun first_pattern :: "(string \<times> string list) list \<Rightarrow> string \<Rightarrow> string option" where
  "first_pattern [] rule_key_upper = None"
| "first_pattern ((pattern, rule_indicators) # rest) rule_key_upper =
     (if list_ex (\<lambda>indicator. py_in (upper indicator) rule_key_upper) rule_indicators
      then Some pattern else first_pattern rest rule_key_upper)"

definition identify_pattern :: "string \<Rightarrow> string option" where
  "identify_pattern rk = first_pattern FIXABLE_PATTERNS (upper rk)"

definition extension_map :: "(string \<times> string) list" where
  "extension_map =
     [(''.java'', ''java''), (''.kt'', ''kotlin''), (''.py'', ''python''),
      (''.js'', ''javascript''), (''.ts'', ''typescript''), (''.go'', ''go''),
      (''.rs'', ''rust''), (''.cpp'', ''cpp''), (''.c'', ''c''), (''.cs'', ''csharp'')]"

fun first_extension :: "(string \<times> string) list \<Rightarrow> string \<Rightarrow> string" where
  "first_extension [] fp = ''unknown''"
| "first_extension ((ext, lang) # rest) fp =
     (if endswith fp ext then lang else first_extension rest fp)"

definition detect_language :: "string \<Rightarrow> string" where
  "detect_language fp = first_extension extension_map fp"

text \<open>\<open>str(n)\<close> for a line count.\<close>

function str_nat :: "nat \<Rightarrow> string" where
  "str_nat n =
     (if n < 10 then [char_of (48 + n)]
      else str_nat (n div 10) @ [char_of (48 + n mod 10)])"
  by pat_completeness auto
termination
  by (relation "measure id") auto

text \<open>
  The class \<open>\w\<close> of \<open>re\<close> on a \<open>str\<close> pattern: the alphanumeric characters and the
  underscore.
\<close>

definition is_word_char :: "char \<Rightarrow> bool" where
  "is_word_char c =
     (let n = (of_char c :: nat)
      in (48 \<le> n \<and> n \<le> 57) \<or> (65 \<le> n \<and> n \<le> 90) \<or> (97 \<le> n \<and> n \<le> 122) \<or> n = 95
         \<or> n \<in> {170, 178, 179, 181, 185, 186, 188, 189, 190}
         \<or> (192 \<le> n \<and> n \<le> 214) \<or> (216 \<le> n \<and> n \<le> 246) \<or> 248 \<le> n)"

text \<open>
  One match of \<open>\w+\s*=\<close> at the head of the text, giving the text after the match.
  The greedy run of word characters and the greedy run of spaces decide it: giving
  characters back leaves a space or a word character where \<open>=\<close> is needed.
\<close>

definition match_assignment :: "string \<Rightarrow> string option" where
  "match_assignment s =
     (case s of
        [] \<Rightarrow> None
      | c # cs \<Rightarrow>
          if is_word_char c
          then (case dropWhile isspace (dropWhile is_word_char cs) of
                  [] \<Rightarrow> None
                | d # r \<Rightarrow> if d = CHR ''='' then Some r else None)
          else None)"

lemma match_assignment_shorter:
  "match_assignment s = Some r \<Longrightarrow> length r < length s"
proof -
  assume m: "match_assignment s = Some r"
  then obtain c cs where s: "s = c # cs"
    by (cases s) (auto simp: match_assignment_def)
  from m s obtain d where d: "dropWhile isspace (dropWhile is_word_char cs) = d # r"
    by (auto simp: match_assignment_def split: if_splits list.splits)
  have "length (dropWhile isspace (dropWhile is_word_char cs)) \<le> length cs"
    by (meson length_dropWhile_le order_trans)
  with d s show ?thesis by simp
qed

text \<open>\<open>len(re.findall(r'\w+\s*=', s))\<close>: the matches are taken from left to right.\<close>

function count_assignments :: "string \<Rightarrow> nat" where
  "count_assignments [] = 0"
| "count_assignments (c # cs) =
     (case match_assignment (c # cs) of
        Some r \<Rightarrow> 1 + count_assignments r
      | None \<Rightarrow> count_assignments cs)"
  by pat_completeness auto
termination
  by (relation "measure length") (auto dest: match_assignment_shorter)

text \<open>
  \<open>len(re.findall(r'(?<!\\)q', code))\<close> for a quote character \<open>q\<close>: the quotes that
  do not follow a backslash; \<open>esc\<close> tells that the previous character is one.
\<close>

fun count_unescaped_from :: "bool \<Rightarrow> char \<Rightarrow> string \<Rightarrow> nat" where
  "count_unescaped_from esc q [] = 0"
| "count_unescaped_from esc q (c # cs) =
     (if c = q \<and> \<not> esc then 1 else 0) + count_unescaped_from (c = CHR 0x5C) q cs"

definition count_unescaped :: "char \<Rightarrow> string \<Rightarrow> nat" where
  "count_unescaped q code = count_unescaped_from False q code"

definition brace_languages :: "string list" where
  "brace_languages =
     [''java'', ''javascript'', ''typescript'', ''c'', ''cpp'', ''csharp'', ''go'']"

definition has_obvious_syntax_errors :: "string \<Rightarrow> string \<Rightarrow> bool" where
  "has_obvious_syntax_errors code lang =
     (if lang \<in> set brace_languages
         \<and> count_list code CHR ''{'' \<noteq> count_list code CHR ''}'' then True
      else if lang \<in> set brace_languages
         \<and> count_list code CHR ''('' \<noteq> count_list code CHR '')'' then True
      else if count_list code CHR ''['' \<noteq> count_list code CHR '']'' then True
      else (let double_quotes = count_unescaped (CHR 0x22) code;
                single_quotes = count_unescaped (CHR 0x27) code
            in if double_quotes mod 2 \<noteq> 0 \<or> single_quotes mod 2 \<noteq> 0 then True
               else False))"

definition error_handling_keywords :: "string list" where
  "error_handling_keywords =
     [''try'', ''catch'', ''except'', ''finally'', ''throw'', ''raise'']"

text \<open>\<open>sum(1 for kw in error_handling_keywords if kw in text.lower())\<close>.\<close>

definition error_handling_count :: "string \<Rightarrow> nat" where
  "error_handling_count text =
     length (filter (\<lambda>kw. py_in kw (lower text)) error_handling_keywords)"

text \<open>
  \<open>_validate_fix\<close>. The two comparisons with a float are written over the integers:
  \<open>abs(d) > n * 0.5\<close> as \<open>2 * abs d > n\<close> and \<open>m < n * 0.8\<close> as \<open>5 * m < 4 * n\<close>.
  The three lists grow in the order of the five checks.
\<close>

definition validate_fix :: "string \<Rightarrow> string \<Rightarrow> finding \<Rightarrow> string \<Rightarrow> FixValidation" where
  "validate_fix original fixed f lang =
     (let original_lines = length (splitlines original);
          fixed_lines = length (splitlines fixed);
          size_warn = (2 * abs (int fixed_lines - int original_lines) > int original_lines);
          w1 = (if size_warn
                then [''Significant size change: '' @ str_nat original_lines @ '' -> ''
                      @ str_nat fixed_lines @ '' lines'']
                else []);
          p1 = (if size_warn then [] else [''Code size change is reasonable'']);
          eh_warn = (error_handling_count fixed < error_handling_count original);
          w2 = (if eh_warn then w1 @ [''Error handling may have been removed''] else w1);
          p2 = (if eh_warn then p1 else p1 @ [''Error handling preserved'']);
          logic_warn = (5 * count_assignments fixed < 4 * count_assignments original);
          w3 = (if logic_warn then w2 @ [''Significant logic may have been removed'']
                else w2);
          p3 = (if logic_warn then p2 else p2 @ [''Logic structure preserved'']);
          syntax_fail = has_obvious_syntax_errors fixed lang;
          f4 = (if syntax_fail then [''Potential syntax errors detected''] else []);
          p4 = (if syntax_fail then p3 else p3 @ [''No obvious syntax errors'']);
          unchanged = (strip original = strip fixed);
          f5 = (if unchanged then f4 @ [''No changes were made''] else f4);
          p5 = (if unchanged then p4 else p4 @ [''Code was modified''])
      in \<lparr>is_safe = (length f5 = 0 \<and> length w3 < 2),
          checks_passed = p5, checks_failed = f5, warnings = w3\<rparr>)"

text \<open>
  Building the prompts raises when the rule details are a non-empty value that is not
  a dict; the fix prompt also cuts the description to 500 characters, which raises
  when it is neither a string nor a list.
\<close>

definition analysis_prompt_error :: "json option \<Rightarrow> py_error option" where
  "analysis_prompt_error rule_details =
     (case rule_details of
        None \<Rightarrow> None
      | Some rd \<Rightarrow>
          if truthy rd
          then (case dict_get rd ''htmlDesc'' (JStr []) of
                  Inl e \<Rightarrow> Some e
                | Inr _ \<Rightarrow> None)
          else None)"

definition fix_prompt_error :: "json option \<Rightarrow> py_error option" where
  "fix_prompt_error rule_details =
     (case rule_details of
        None \<Rightarrow> None
      | Some rd \<Rightarrow>
          if truthy rd
          then (case dict_get rd ''htmlDesc'' (JStr []) of
                  Inl e \<Rightarrow> Some e
                | Inr (JStr _) \<Rightarrow> None
                | Inr (JArr _) \<Rightarrow> None
                | Inr _ \<Rightarrow> Some (TypeError ''object is not subscriptable''))
          else None)"

text \<open>
  \<open>generate_fix\<close>: every exception of its body gives \<open>None\<close>, as does an answer that
  does not parse, a parsed value that is empty, has no \<open>fixed_code\<close> or has one that is
  not a string.
\<close>

definition generate_fix ::
  "pylib \<Rightarrow> py_error + string \<Rightarrow> finding \<Rightarrow> string \<Rightarrow> string \<Rightarrow> json option
     \<Rightarrow> FixResult option" where
  "generate_fix lib answer f code_context full_file_content rule_details =
     (case identify_pattern (rule_key f) of
        None \<Rightarrow> None
      | Some pattern \<Rightarrow>
          (let lang = detect_language (file_path f)
           in if fix_prompt_error rule_details \<noteq> None then None
              else (case answer of
                      Inl e \<Rightarrow> None
                    | Inr response \<Rightarrow>
                        (case json_loads lib (extract_json response) of
                           None \<Rightarrow> None
                         | Some fix_data \<Rightarrow>
                             if \<not> truthy fix_data then None
                             else (case fix_data of
                                     JObj kvs \<Rightarrow>
                                       (case map_of kvs ''fixed_code'' of
                                          Some (JStr fixed) \<Rightarrow>
                                            Some \<lparr>fixed_code = fixed,
                                                  diff = unified_diff lib code_context fixed,
                                                  explanation =
                                                    (case map_of kvs ''explanation'' of
                                                       Some v \<Rightarrow> v | None \<Rightarrow> JStr []),
                                                  test_suggestions =
                                                    (case map_of kvs ''test_suggestions'' of
                                                       Some v \<Rightarrow> v | None \<Rightarrow> JArr []),
                                                  validation =
                                                    validate_fix code_context fixed f lang,
                                                  fix_confidence =
                                                    (case map_of kvs ''confidence'' of
                                                       Some v \<Rightarrow> v
                                                     | None \<Rightarrow> JNum (8 / 10))\<rparr>
                                        | _ \<Rightarrow> None)
                                   | _ \<Rightarrow> None)))))"

section \<open>False-positive analysis\<close>

record FalsePositiveAnalysis =
  is_false_positive :: json
  fp_confidence :: rat
  reasoning :: json
  evidence :: json
  recommendation :: json

text \<open>\<open>float(x)\<close>.\<close>

definition py_float :: "pylib \<Rightarrow> json \<Rightarrow> py_error + rat" where
  "py_float lib v =
     (case v of
        JNum r \<Rightarrow> Inr r
      | JBool b \<Rightarrow> Inr (if b then 1 else 0)
      | JStr s \<Rightarrow>
          (case str_to_float lib s of
             Some r \<Rightarrow> Inr r
           | None \<Rightarrow> Inl (ValueError ''could not convert string to float''))
      | _ \<Rightarrow> Inl (TypeError ''float() argument must be a string or a real number''))"

text \<open>The result \<open>_parse_response\<close> returns when \<open>json.loads\<close> rejects the text.\<close>

definition unparsed_analysis :: FalsePositiveAnalysis where
  "unparsed_analysis =
     \<lparr>is_false_positive = JBool False, fp_confidence = 0,
      reasoning = JStr ''Failed to parse analysis result'', evidence = JArr [],
      recommendation = JStr ''Manual review required''\<rparr>"

text \<open>
  \<open>_parse_response\<close>: only the JSONDecodeError is handled here; the other exceptions
  (a parsed value that is not a dict, a confidence that is no number) leave the
  function.
\<close>

definition parse_response :: "pylib \<Rightarrow> string \<Rightarrow> py_error + FalsePositiveAnalysis" where
  "parse_response lib response =
     (case json_loads lib (extract_json response) of
        None \<Rightarrow> Inr unparsed_analysis
      | Some data \<Rightarrow>
          (case dict_get data ''is_false_positive'' (JBool False) of
             Inl e \<Rightarrow> Inl e
           | Inr fp \<Rightarrow>
               (case dict_get data ''confidence'' (JNum 0) of
                  Inl e \<Rightarrow> Inl e
                | Inr cv \<Rightarrow>
                    (case py_float lib cv of
                       Inl e \<Rightarrow> Inl e
                     | Inr conf \<Rightarrow>
                         (case dict_get data ''reasoning'' (JStr []) of
                            Inl e \<Rightarrow> Inl e
                          | Inr rs \<Rightarrow>
                              (case dict_get data ''evidence'' (JArr []) of
                                 Inl e \<Rightarrow> Inl e
                               | Inr ev \<Rightarrow>
                                   (case dict_get data ''recommendation'' (JStr []) of
                                      Inl e \<Rightarrow> Inl e
                                    | Inr rc \<Rightarrow>
                                        Inr \<lparr>is_false_positive = fp, fp_confidence = conf,
                                             reasoning = rs, evidence = ev,
                                             recommendation = rc\<rparr>)))))))"

text \<open>The body of the \<open>try\<close> block of \<open>analyze\<close>, and the result of its \<open>except\<close> block.\<close>

definition analyze_try ::
  "pylib \<Rightarrow> py_error + string \<Rightarrow> finding \<Rightarrow> string \<Rightarrow> json option
     \<Rightarrow> py_error + FalsePositiveAnalysis" where
  "analyze_try lib answer f code_context rule_details =
     (case analysis_prompt_error rule_details of
        Some e \<Rightarrow> Inl e
      | None \<Rightarrow>
          (case answer of
             Inl e \<Rightarrow> Inl e
           | Inr response \<Rightarrow> parse_response lib response))"

definition error_analysis :: "py_error \<Rightarrow> FalsePositiveAnalysis" where
  "error_analysis e =
     \<lparr>is_false_positive = JBool False, fp_confidence = 0,
      reasoning = JStr (''Analysis error: '' @ err_str e), evidence = JArr [],
      recommendation = JStr ''Manual review required due to analysis error''\<rparr>"

definition analyze ::
  "pylib \<Rightarrow> py_error + string \<Rightarrow> finding \<Rightarrow> string \<Rightarrow> json option
     \<Rightarrow> FalsePositiveAnalysis" where
  "analyze lib answer f code_context rule_details =
     (case analyze_try lib answer f code_context rule_details of
        Inr a \<Rightarrow> a
      | Inl e \<Rightarrow> error_analysis e)"

section \<open>The agent: rate limiting and the per-finding workflow\<close>

text \<open>
  The configuration, with the value each \<open>.get(name, default)\<close> of the agent reads.
\<close>

record config =
  fp_min_confidence :: rat
  auto_mark :: bool
  require_review_below :: rat
  fix_min_confidence :: rat
  request_copilot_review :: bool
  auto_fix_priorities :: "string list"
  max_prs_per_hour :: int
  max_comments_per_hour :: int

definition default_config :: config where
  "default_config =
     \<lparr>fp_min_confidence = 85 / 100, auto_mark = True, require_review_below = 70 / 100,
      fix_min_confidence = 90 / 100, request_copilot_review = True,
      auto_fix_priorities = [''P0'', ''P1''],
      max_prs_per_hour = 5, max_comments_per_hour = 20\<rparr>"

record pull_request =
  number :: int
  html_url :: string

text \<open>
  What the agent sends to its collaborators and the lines it logs at the branching
  points of the workflow. A comment is kept by its parts, not as rendered markdown.
\<close>

datatype comment =
    FPComment FalsePositiveAnalysis
  | RiskComment RiskAssessment
  | PRLinkComment string
  | EscalationComment string string rat

datatype action =
    AddComment string comment bool
  | TransitionIssue string string string
  | CreateBranch string string
  | CreateOrUpdateFile string string string string string
  | CreatePullRequest string string "pull_request option"
  | RequestCopilotReview string int
  | CallGenerateFix
  | LogAttemptFix
  | LogTrackingOnly
  | LogEscalated string

text \<open>
  The agent's fields, with the readings of the clock taken so far, the calls of
  \<open>add_comment\<close> made so far and the actions performed so far. A timestamp is a number
  of microseconds.
\<close>

record agent =
  prs_created_this_hour :: int
  comments_posted_this_hour :: int
  rate_limit_reset_time :: int
  findings_analyzed :: int
  false_positives_detected :: int
  fixes_generated :: int
  prs_created :: int
  errors :: int
  clock_reads :: nat
  comment_calls :: nat
  actions :: "action list"

text \<open>
  What the collaborators answer while one finding is processed: the successive
  readings of \<open>datetime.now()\<close>, the result of each \<open>add_comment\<close>, the source window of
  the finding source, the repository of the component, the file of the code host at
  the two places it is read, the rule details, the answers of the model backend to the
  three analyzers, the exception of the pull-request templates if they raise, and the
  result of \<open>create_pull_request\<close>.
\<close>

record env =
  now_at :: "nat \<Rightarrow> int"
  add_comment_ok :: "nat \<Rightarrow> bool"
  source_code :: "string option"
  repo :: "string option"
  context_file :: "string option"
  full_file :: "string option"
  rule_details :: "json option"
  fp_answer :: "py_error + string"
  risk_answer :: "py_error + string"
  fix_answer :: "py_error + string"
  pr_template_error :: "py_error option"
  created_pr :: "pull_request option"

definition one_hour :: int where
  "one_hour = 3600 * 1000000"

definition now :: "env \<Rightarrow> agent \<Rightarrow> int \<times> agent" where
  "now e s = (now_at e (clock_reads s), s\<lparr>clock_reads := Suc (clock_reads s)\<rparr>)"

definition reset_rate_limits_if_needed :: "env \<Rightarrow> agent \<Rightarrow> agent" where
  "reset_rate_limits_if_needed e s =
     (let (t1, s1) = now e s
      in if t1 \<ge> rate_limit_reset_time s1
         then (let (t2, s2) = now e s1
               in s2\<lparr>prs_created_this_hour := 0, comments_posted_this_hour := 0,
                     rate_limit_reset_time := t2 + one_hour\<rparr>)
         else s1)"

definition check_rate_limit :: "config \<Rightarrow> env \<Rightarrow> string \<Rightarrow> agent \<Rightarrow> bool \<times> agent" where
  "check_rate_limit cfg e operation s =
     (let s1 = reset_rate_limits_if_needed e s
      in if operation = ''pr''
         then (prs_created_this_hour s1 < max_prs_per_hour cfg, s1)
         else if operation = ''comment''
         then (comments_posted_this_hour s1 < max_comments_per_hour cfg, s1)
         else (True, s1))"

definition perform :: "action \<Rightarrow> agent \<Rightarrow> agent" where
  "perform a s = s\<lparr>actions := actions s @ [a]\<rparr>"

definition add_comment :: "env \<Rightarrow> string \<Rightarrow> comment \<Rightarrow> agent \<Rightarrow> bool \<times> agent" where
  "add_comment e k c s =
     (let ok = add_comment_ok e (comment_calls s)
      in (ok, perform (AddComment k c ok) (s\<lparr>comment_calls := Suc (comment_calls s)\<rparr>)))"

text \<open>
  The block the agent repeats at each of its four comments: the check of the limit,
  the call, whose result is dropped, and the increment.
\<close>

definition comment_if_allowed :: "config \<Rightarrow> env \<Rightarrow> string \<Rightarrow> comment \<Rightarrow> agent \<Rightarrow> agent" where
  "comment_if_allowed cfg e k c s =
     (let (allowed, s1) = check_rate_limit cfg e ''comment'' s
      in if allowed
         then (let (ok, s2) = add_comment e k c s1
               in s2\<lparr>comments_posted_this_hour := comments_posted_this_hour s2 + 1\<rparr>)
         else s1)"

definition truthy_str :: "string option \<Rightarrow> bool" where
  "truthy_str x = (case x of None \<Rightarrow> False | Some t \<Rightarrow> t \<noteq> [])"

definition get_code_context :: "env \<Rightarrow> finding \<Rightarrow> string option" where
  "get_code_context e f =
     (let context_lines = 20;
          from_line = max 1 (line f - context_lines);
          to_line = line f + context_lines
      in if truthy_str (source_code e) then source_code e
         else if truthy_str (repo e) \<and> truthy_str (context_file e)
         then Some (join [CHR 0x0A]
                      (py_slice (splitlines (the (context_file e))) (from_line - 1) to_line))
         else None)"

definition get_full_file :: "env \<Rightarrow> finding \<Rightarrow> string option" where
  "get_full_file e f = (if truthy_str (repo e) then full_file e else None)"

text \<open>
  Rendering the false-positive comment iterates over the evidence, which raises a
  TypeError when the model gave a null, a boolean or a number for it.
\<close>

definition fp_comment_error :: "FalsePositiveAnalysis \<Rightarrow> py_error option" where
  "fp_comment_error analysis =
     (case evidence analysis of
        JNull \<Rightarrow> Some (TypeError ''object is not iterable'')
      | JBool b \<Rightarrow> Some (TypeError ''object is not iterable'')
      | JNum r \<Rightarrow> Some (TypeError ''object is not iterable'')
      | _ \<Rightarrow> None)"

definition handle_false_positive ::
  "config \<Rightarrow> env \<Rightarrow> finding \<Rightarrow> FalsePositiveAnalysis \<Rightarrow> agent \<Rightarrow> py_error option \<times> agent" where
  "handle_false_positive cfg e f analysis s =
     (let (allowed, s1) = check_rate_limit cfg e ''comment'' s
      in if allowed \<and> fp_comment_error analysis \<noteq> None
         then (fp_comment_error analysis, s1)
         else (let s2 = (if allowed
                         then (let (ok, s') = add_comment e (key f) (FPComment analysis) s1
                               in s'\<lparr>comments_posted_this_hour :=
                                       comments_posted_this_hour s' + 1\<rparr>)
                         else s1)
               in if auto_mark cfg \<and> fp_confidence analysis > require_review_below cfg
                  then (None, perform (TransitionIssue (key f) ''wontfix''
                                         ''Marked as false positive by automated analysis'') s2)
                  else (None, s2)))"

definition branch_name_of :: "finding \<Rightarrow> string" where
  "branch_name_of f =
     ''sonarqube-fix/'' @ map (\<lambda>c. if c = CHR '':'' then CHR ''-'' else c) (rule_key f)
       @ ''-'' @ take 8 (key f)"

definition create_fix_pr ::
  "config \<Rightarrow> env \<Rightarrow> finding \<Rightarrow> FixResult \<Rightarrow> RiskAssessment \<Rightarrow> agent \<Rightarrow> agent" where
  "create_fix_pr cfg e f fix_result ra s =
     (let (allowed, s1) = check_rate_limit cfg e ''pr'' s
      in if \<not> allowed then s1
         else if \<not> truthy_str (repo e) then s1
         else (let r = the (repo e);
                   branch_name = branch_name_of f;
                   s2 = perform (CreateBranch r branch_name) s1;
                   commit_message = ''fix: resolve '' @ rule_name f @ '' in '' @ file_path f;
                   s3 = perform (CreateOrUpdateFile r branch_name (file_path f)
                                   (fixed_code fix_result) commit_message) s2
               in if pr_template_error e \<noteq> None then s3
                  else (let s4 = perform (CreatePullRequest r branch_name (created_pr e)) s3
                        in case created_pr e of
                             None \<Rightarrow> s4
                           | Some pr \<Rightarrow>
                               (let s5 = s4\<lparr>prs_created_this_hour :=
                                               prs_created_this_hour s4 + 1\<rparr>;
                                    s6 = (if request_copilot_review cfg
                                          then perform (RequestCopilotReview r (number pr)) s5
                                          else s5)
                                in comment_if_allowed cfg e (key f)
                                     (PRLinkComment (html_url pr)) s6))))"

definition escalate_to_human ::
  "config \<Rightarrow> env \<Rightarrow> finding \<Rightarrow> RiskAssessment \<Rightarrow> string \<Rightarrow> agent \<Rightarrow> agent" where
  "escalate_to_human cfg e f ra reason s =
     perform (LogEscalated reason)
       (comment_if_allowed cfg e (key f)
          (EscalationComment reason (priority ra) (risk_score ra)) s)"

text \<open>
  Phase 4 of \<open>process_finding\<close>, entered when the priority is in the auto-fix set and
  the full file was fetched. The comparison of the fix's confidence with the threshold
  raises a TypeError when the model reported a confidence that is no number.
\<close>

definition fix_phase ::
  "pylib \<Rightarrow> config \<Rightarrow> env \<Rightarrow> finding \<Rightarrow> string \<Rightarrow> string \<Rightarrow> RiskAssessment \<Rightarrow> agent
     \<Rightarrow> py_error option \<times> agent" where
  "fix_phase lib cfg e f code_context file ra s =
     (let s1 = perform CallGenerateFix s;
          fix_result = generate_fix lib (fix_answer e) f code_context file (rule_details e)
      in case fix_result of
           None \<Rightarrow> (None, escalate_to_human cfg e f ra ''Complex fix required'' s1)
         | Some fr \<Rightarrow>
             if is_safe (validation fr)
             then (case as_number (fix_confidence fr) of
                     Inl err \<Rightarrow> (Some err, s1)
                   | Inr c \<Rightarrow>
                       if c \<ge> fix_min_confidence cfg
                       then (let s2 = create_fix_pr cfg e f fr ra s1
                             in (None, s2\<lparr>fixes_generated := fixes_generated s2 + 1,
                                          prs_created := prs_created s2 + 1\<rparr>))
                       else (None, escalate_to_human cfg e f ra ''Low confidence fix'' s1))
             else (None, escalate_to_human cfg e f ra ''Complex fix required'' s1))"

text \<open>
  \<open>process_finding\<close>: the exception it raises, if any, and the agent afterwards.
\<close>

definition process_finding ::
  "pylib \<Rightarrow> config \<Rightarrow> env \<Rightarrow> finding \<Rightarrow> agent \<Rightarrow> py_error option \<times> agent" where
  "process_finding lib cfg e f s =
     (let s1 = s\<lparr>findings_analyzed := findings_analyzed s + 1\<rparr>
      in case get_code_context e f of
           None \<Rightarrow> (None, s1)
         | Some code_context \<Rightarrow>
             if code_context = [] then (None, s1)
             else (let fp_analysis =
                         analyze lib (fp_answer e) f code_context (rule_details e)
                   in if truthy (is_false_positive fp_analysis)
                         \<and> fp_confidence fp_analysis \<ge> fp_min_confidence cfg
                      then (let (err, s2) = handle_false_positive cfg e f fp_analysis s1
                            in (err, if err = None
                                     then s2\<lparr>false_positives_detected :=
                                               false_positives_detected s2 + 1\<rparr>
                                     else s2))
                      else (let ra = assess (json_loads lib) (risk_answer e) f code_context
                                       (rule_details e);
                                s2 = comment_if_allowed cfg e (key f) (RiskComment ra) s1
                            in if priority ra \<in> set (auto_fix_priorities cfg)
                               then (let s3 = perform LogAttemptFix s2
                                     in case get_full_file e f of
                                          None \<Rightarrow> (None, s3)
                                        | Some file \<Rightarrow>
                                            if file = [] then (None, s3)
                                            else fix_phase lib cfg e f code_context file ra s3)
                               else (None, perform LogTrackingOnly s2))))"

text \<open>
  The loop of \<open>run_once\<close> over the findings fetched, each with the answers its
  processing gets: an exception of \<open>process_finding\<close> is counted and the loop goes on.
\<close>

fun run_once :: "pylib \<Rightarrow> config \<Rightarrow> (env \<times> finding) list \<Rightarrow> agent \<Rightarrow> agent" where
  "run_once lib cfg [] s = s"
| "run_once lib cfg ((e, f) # rest) s =
     (case process_finding lib cfg e f s of
        (None, s1) \<Rightarrow> run_once lib cfg rest s1
      | (Some err, s1) \<Rightarrow> run_once lib cfg rest (s1\<lparr>errors := errors s1 + 1\<rparr>))"

section \<open>Example inputs\<close>

text \<open>
  The finding of the spec's scenario A and a code context with none of the markers the
  risk heuristics look for. \<open>stub_loads table\<close> stands for \<open>json.loads\<close> on the texts
  an example hands to it: the table gives the value of each, and the other texts do not parse.
\<close>

definition scenario_A :: finding where
  "scenario_A =
     \<lparr>key = ''AX-1'', rule_key = ''java:S2259'', rule_name = ''Null pointers should not be dereferenced'',
      severity = ''HIGH'', message = ''A NullPointerException could be thrown'',
      file_path = ''src/main/UserService.java'', line = 42, status = ''OPEN'',
      project = ''shop'', component = ''shop:src/main/UserService.java'',
      creation_date = ''2024-01-01'', language = Some ''java''\<rparr>"

definition plain_context :: string where
  "plain_context = ''String name = customer.getName();''"

definition stub_loads :: "(string \<times> json) list \<Rightarrow> loads_fn" where
  "stub_loads table = map_of table"

definition risk_reply :: string where
  "risk_reply = ''{\"justification\": \"null dereference in a user service\", \"business_context\": \"accounts\", \"confidence\": 0.95}''"

definition risk_reply_value :: json where
  "risk_reply_value =
     JObj [(''justification'', JStr ''null dereference in a user service''),
           (''business_context'', JStr ''accounts''), (''confidence'', JNum (95 / 100))]"

text \<open>
  The finding and the code context of a second scenario, which the risk assessor puts
  in the auto-fix set: an injection rule of critical severity in a REST controller.
\<close>

definition scenario_sql :: finding where
  "scenario_sql =
     \<lparr>key = ''AX-2'', rule_key = ''java:S3649'', rule_name = ''Database queries should not be vulnerable to injection attacks'',
      severity = ''CRITICAL'', message = ''Change this code to not construct SQL queries from user input'',
      file_path = ''src/main/UserController.java'', line = 17, status = ''OPEN'',
      project = ''shop'', component = ''shop:src/main/UserController.java'',
      creation_date = ''2024-01-01'', language = Some ''java''\<rparr>"

definition rest_context :: string where
  "rest_context = ''@GetMapping User find(String n) { return repo.find(n); }''"

text \<open>
  Answers of the model backend and the values \<open>json.loads\<close> gives for the objects in
  them: a false-positive verdict wrapped in prose, a verdict that the finding is real,
  and a fix whose code is the context it was given.
\<close>

definition fp_yes_object :: string where
  "fp_yes_object = ''{\"is_false_positive\": true, \"confidence\": 0.95}''"

definition fp_yes_reply :: string where
  "fp_yes_reply = ''Sure! '' @ fp_yes_object @ '' Hope that helps!''"

definition fp_yes_value :: json where
  "fp_yes_value = JObj [(''is_false_positive'', JBool True), (''confidence'', JNum (95 / 100))]"

definition fp_no_reply :: string where
  "fp_no_reply = ''{\"is_false_positive\": false, \"confidence\": 0.9}''"

definition fp_no_value :: json where
  "fp_no_value = JObj [(''is_false_positive'', JBool False), (''confidence'', JNum (9 / 10))]"

definition fix_same_reply :: string where
  "fix_same_reply = ''{\"fixed_code\": \"'' @ rest_context @ ''\", \"confidence\": 0.95}''"

definition fix_same_value :: json where
  "fix_same_value = JObj [(''fixed_code'', JStr rest_context), (''confidence'', JNum (95 / 100))]"

definition example_lib :: pylib where
  "example_lib =
     \<lparr>json_loads = stub_loads [(risk_reply, risk_reply_value), (fp_yes_object, fp_yes_value),
                               (fp_no_reply, fp_no_value), (fix_same_reply, fix_same_value)],
      str_to_float = (\<lambda>s. None), unified_diff = (\<lambda>a b. [])\<rparr>"

text \<open>
  An agent at the start of its run, and the collaborators of scenario A: the clock
  advances by a second at each reading, every comment is accepted, the model finds the
  finding real.
\<close>

definition agent0 :: agent where
  "agent0 =
     \<lparr>prs_created_this_hour = 0, comments_posted_this_hour = 0,
      rate_limit_reset_time = one_hour, findings_analyzed = 0,
      false_positives_detected = 0, fixes_generated = 0, prs_created = 0, errors = 0,
      clock_reads = 0, comment_calls = 0, actions = []\<rparr>"

definition env_A :: env where
  "env_A =
     \<lparr>now_at = (\<lambda>n. int n * 1000000), add_comment_ok = (\<lambda>n. True),
      source_code = Some plain_context, repo = Some ''acme/shop'', context_file = None,
      full_file = Some ''class UserService { }'', rule_details = None,
      fp_answer = Inr fp_no_reply, risk_answer = Inr risk_reply,
      fix_answer = Inl (BackendError ''connection refused''),
      pr_template_error = None, created_pr = None\<rparr>"

text \<open>Scenario A with a model that calls the finding a false positive.\<close>

definition env_fp :: env where
  "env_fp = env_A\<lparr>fp_answer := Inr fp_yes_reply\<rparr>"

text \<open>Scenario A with a finding source that rejects every comment.\<close>

definition env_deaf :: env where
  "env_deaf = env_A\<lparr>add_comment_ok := (\<lambda>n. False)\<rparr>"

text \<open>Scenario A with rule details whose type is a number.\<close>

definition env_odd_rule :: env where
  "env_odd_rule = env_A\<lparr>rule_details := Some (JObj [(''type'', JNum 3)])\<rparr>"

text \<open>The second scenario, with a model whose fix repeats the context.\<close>

definition env_C :: env where
  "env_C =
     env_A\<lparr>source_code := Some rest_context,
           full_file := Some ''class UserController { }'',
           fix_answer := Inr fix_same_reply\<rparr>"

text \<open>A fix with an escaped quote inside a string literal.\<close>

definition quoted_fix :: string where
  "quoted_fix =
     ''String s = '' @ [CHR 0x22, CHR ''a'', CHR 0x5C, CHR 0x22, CHR ''b'', CHR 0x22] @ '';''"

text \<open>
  The count the spec words for the error-handling check: the occurrences of a keyword
  in a text, and their sum over the six keywords in the lower-cased text.
\<close>

fun count_occurrences :: "string \<Rightarrow> string \<Rightarrow> nat" where
  "count_occurrences kw [] = 0"
| "count_occurrences kw (c # cs) =
     (if prefix kw (c # cs) then 1 else 0) + count_occurrences kw cs"

definition spec_keyword_occurrences :: "string \<Rightarrow> nat" where
  "spec_keyword_occurrences text =
     sum_list (map (\<lambda>kw. count_occurrences kw (lower text)) error_handling_keywords)"

definition two_handlers :: string where
  "two_handlers = ''try { a(); } catch (E e) { } try { b(); } catch (E e) { }''"

definition one_handler :: string where
  "one_handler = ''try { a(); b(); } catch (E e) { }''"

section \<open>Auxiliary notions for the workflow\<close>

text \<open>
  The actions the comment and pull-request helpers perform; the other actions mark the
  branch the workflow took.
\<close>

fun routine_call :: "action \<Rightarrow> bool" where
  "routine_call (AddComment k c ok) = True"
| "routine_call (CreateBranch r b) = True"
| "routine_call (CreateOrUpdateFile r b p c m) = True"
| "routine_call (CreatePullRequest r h pr) = True"
| "routine_call (RequestCopilotReview r n) = True"
| "routine_call a = False"

text \<open>
  The reason \<open>fix_phase\<close> escalates with, if it escalates, read off its branches.
\<close>

definition escalation_of :: "config \<Rightarrow> FixResult option \<Rightarrow> string option" where
  "escalation_of cfg fix_result =
     (case fix_result of
        None \<Rightarrow> Some ''Complex fix required''
      | Some fr \<Rightarrow>
          if is_safe (validation fr)
          then (case as_number (fix_confidence fr) of
                  Inl err \<Rightarrow> None
                | Inr c \<Rightarrow> if c \<ge> fix_min_confidence cfg then None
                           else Some ''Low confidence fix'')
          else Some ''Complex fix required'')"

section \<open>Risk assessment: score, priority and SLA\<close>

lemma assess_try_InrD:
  assumes "assess_try loads answer f ctx rd = Inr ra"
  shows "\<exists>expl cv conf just bc.
           calculate_exploitability f rd = Inr expl
         \<and> dict_get (get_contextual_analysis loads answer) ''confidence'' (JNum (8 / 10)) = Inr cv
         \<and> as_number cv = Inr conf
         \<and> dict_get (get_contextual_analysis loads answer) ''justification'' (JStr []) = Inr just
         \<and> dict_get (get_contextual_analysis loads answer) ''business_context'' (JStr []) = Inr bc
         \<and> ra = \<lparr>risk_score = of_int (expl * calculate_impact f ctx * calculate_exposure f ctx) / 100 * conf,
                  priority = calculate_priority
                     (of_int (expl * calculate_impact f ctx * calculate_exposure f ctx) / 100 * conf),
                  exploitability = expl, impact = calculate_impact f ctx,
                  exposure = calculate_exposure f ctx, confidence = conf,
                  justification = just, business_context = bc,
                  recommended_sla = calculate_sla (calculate_priority
                     (of_int (expl * calculate_impact f ctx * calculate_exposure f ctx) / 100 * conf))\<rparr>"
  using assms unfolding assess_try_def Let_def
  by (auto split: sum.splits)

lemma calculate_sla_of_priority:
  "calculate_sla (calculate_priority rs) =
     (if calculate_priority rs = ''P0'' then ''24 hours''
      else if calculate_priority rs = ''P1'' then ''1 week''
      else if calculate_priority rs = ''P2'' then ''2 weeks'' else ''1 month'')"
  by (simp add: calculate_sla_def calculate_priority_def sla_map_def)

text \<open>
  Claim C1. On the non-error path of \<open>assess\<close> (the \<open>try\<close> block returns), the returned
  assessment has \<open>risk_score = exploitability * impact * exposure / 100 * confidence\<close>,
  its priority is the step function of the risk score with the breakpoints 8, 6 and 4,
  and its recommended SLA is the function of the priority alone that maps P0 to 24
  hours, P1 to 1 week, P2 to 2 weeks and P3 to 1 month.
\<close>

theorem assess_score_priority_sla:
  assumes "assess_try loads answer f ctx rd = Inr ra"
  shows "assess loads answer f ctx rd = ra
       \<and> risk_score ra
           = of_int (exploitability ra * impact ra * exposure ra) / 100 * confidence ra
       \<and> priority ra
           = (if risk_score ra \<ge> 8 then ''P0''
              else if risk_score ra \<ge> 6 then ''P1''
              else if risk_score ra \<ge> 4 then ''P2'' else ''P3'')
       \<and> recommended_sla ra
           = (if priority ra = ''P0'' then ''24 hours''
              else if priority ra = ''P1'' then ''1 week''
              else if priority ra = ''P2'' then ''2 weeks'' else ''1 month'')"
proof -
  from assess_try_InrD[OF assms] obtain expl conf just bc where
    ra: "ra = \<lparr>risk_score = of_int (expl * calculate_impact f ctx * calculate_exposure f ctx) / 100 * conf,
                  priority = calculate_priority
                     (of_int (expl * calculate_impact f ctx * calculate_exposure f ctx) / 100 * conf),
                  exploitability = expl, impact = calculate_impact f ctx,
                  exposure = calculate_exposure f ctx, confidence = conf,
                  justification = just, business_context = bc,
                  recommended_sla = calculate_sla (calculate_priority
                     (of_int (expl * calculate_impact f ctx * calculate_exposure f ctx) / 100 * conf))\<rparr>"
    by blast
  have a: "assess loads answer f ctx rd = ra"
    using assms by (simp add: assess_def)
  have p: "priority ra
           = (if risk_score ra \<ge> 8 then ''P0''
              else if risk_score ra \<ge> 6 then ''P1''
              else if risk_score ra \<ge> 4 then ''P2'' else ''P3'')"
    by (simp add: ra calculate_priority_def)
  have s: "recommended_sla ra
           = (if priority ra = ''P0'' then ''24 hours''
              else if priority ra = ''P1'' then ''1 week''
              else if priority ra = ''P2'' then ''2 weeks'' else ''1 month'')"
    unfolding ra by (simp only: RiskAssessment.simps calculate_sla_of_priority)
  have r: "risk_score ra
           = of_int (exploitability ra * impact ra * exposure ra) / 100 * confidence ra"
    by (simp add: ra)
  from a r p s show ?thesis by blast
qed

theorem assess_score_priority_sla_witness:
  "risk_score (assess (stub_loads [(risk_reply, risk_reply_value)]) (Inr risk_reply)
                 scenario_A plain_context None) = 513 / 200
   \<and> priority (assess (stub_loads [(risk_reply, risk_reply_value)]) (Inr risk_reply)
                 scenario_A plain_context None) = ''P3''
   \<and> recommended_sla (assess (stub_loads [(risk_reply, risk_reply_value)]) (Inr risk_reply)
                 scenario_A plain_context None) = ''1 month''"
proof -
  have h: "assess_try (stub_loads [(risk_reply, risk_reply_value)]) (Inr risk_reply)
             scenario_A plain_context None
           = Inr \<lparr>risk_score = 513 / 200, priority = ''P3'', exploitability = 6, impact = 9,
                  exposure = 5, confidence = 95 / 100,
                  justification = JStr ''null dereference in a user service'',
                  business_context = JStr ''accounts'', recommended_sla = ''1 month''\<rparr>"
    by code_simp
  from assess_score_priority_sla[OF h] show ?thesis by simp
qed

text \<open>
  Claim C9, as amended. When the model call of the risk assessor raises, or its answer
  is rejected by \<open>json.loads\<close>, and the exploitability heuristic returns, \<open>assess\<close>
  completes on its normal path: the three sub-scores are the heuristic ones, the
  justification is the generic fallback text, the business context is Unknown, and the
  confidence is the fallback's 0.7. The default 0.8 of \<open>assess\<close> is read only when
  the model's object has no confidence.
\<close>

theorem assess_model_failure_fallback:
  assumes "(\<exists>err. answer = Inl err) \<or> (\<exists>r. answer = Inr r \<and> loads (extract_json r) = None)"
      and "calculate_exploitability f rd = Inr expl"
  shows "assess loads answer f ctx rd
         = \<lparr>risk_score = of_int (expl * calculate_impact f ctx * calculate_exposure f ctx) / 100 * (7 / 10),
            priority = calculate_priority
               (of_int (expl * calculate_impact f ctx * calculate_exposure f ctx) / 100 * (7 / 10)),
            exploitability = expl, impact = calculate_impact f ctx,
            exposure = calculate_exposure f ctx, confidence = 7 / 10,
            justification =
              JStr ''Automated risk assessment based on rule severity and code location'',
            business_context = JStr ''Unknown'',
            recommended_sla = calculate_sla (calculate_priority
               (of_int (expl * calculate_impact f ctx * calculate_exposure f ctx) / 100 * (7 / 10)))\<rparr>"
proof -
  have fb: "get_contextual_analysis loads answer = fallback_analysis"
    using assms(1) by (auto simp: get_contextual_analysis_def)
  show ?thesis
    using assms(2)
    by (simp add: assess_def assess_try_def fb fallback_analysis_def Let_def)
qed

theorem assess_model_failure_fallback_witness:
  "assess (\<lambda>s. None) (Inl (BackendError ''connection refused'')) scenario_A plain_context None
   = \<lparr>risk_score = 189 / 100, priority = ''P3'', exploitability = 6, impact = 9,
      exposure = 5, confidence = 7 / 10,
      justification =
        JStr ''Automated risk assessment based on rule severity and code location'',
      business_context = JStr ''Unknown'', recommended_sla = ''1 month''\<rparr>"
proof -
  have h1: "(\<exists>err. (Inl (BackendError ''connection refused'') :: py_error + string) = Inl err)
          \<or> (\<exists>r. (Inl (BackendError ''connection refused'') :: py_error + string) = Inr r
                  \<and> (\<lambda>s. None :: json option) (extract_json r) = None)"
    by simp
  have h2: "calculate_exploitability scenario_A None = Inr 6" by code_simp
  have i: "calculate_impact scenario_A plain_context = 9" by code_simp
  have x: "calculate_exposure scenario_A plain_context = 5" by code_simp
  from assess_model_failure_fallback[OF h1 h2, of plain_context]
  show ?thesis
    by (simp add: i x calculate_priority_def calculate_sla_def sla_map_def)
qed

text \<open>
  The claim as first stated gives the confidence 0.8 on a failed model call; at a
  backend error the code returns 0.7.
\<close>

theorem model_failure_confidence_counterexample:
  "confidence (assess (\<lambda>s. None) (Inl (BackendError ''connection refused''))
                 scenario_A plain_context None) = 7 / 10
   \<and> confidence (assess (\<lambda>s. None) (Inl (BackendError ''connection refused''))
                 scenario_A plain_context None) \<noteq> 8 / 10"
  by code_simp

section \<open>Fix validation: hard failures and the error-handling warning\<close>

text \<open>
  Claim C2, as amended. A fix is not safe whenever the syntax check fires: when the
  language is one of java, javascript, typescript, c, cpp, csharp and go and the counts
  of braces or of parentheses differ; in every language when the counts of square
  brackets differ, or when the number of double quotes, or of single quotes, that do
  not follow a backslash is odd. No other check can make such a fix safe.
\<close>

theorem syntax_errors_make_fix_unsafe:
  assumes "(lang \<in> set brace_languages
             \<and> (count_list fixed CHR ''{'' \<noteq> count_list fixed CHR ''}''
                \<or> count_list fixed CHR ''('' \<noteq> count_list fixed CHR '')''))
         \<or> count_list fixed CHR ''['' \<noteq> count_list fixed CHR '']''
         \<or> odd (count_unescaped (CHR 0x22) fixed)
         \<or> odd (count_unescaped (CHR 0x27) fixed)"
  shows "has_obvious_syntax_errors fixed lang
       \<and> \<not> is_safe (validate_fix original fixed f lang)"
proof -
  have h: "has_obvious_syntax_errors fixed lang"
    using assms unfolding has_obvious_syntax_errors_def Let_def
    by (auto simp: odd_iff_mod_2_eq_one)
  then show ?thesis
    by (simp add: validate_fix_def Let_def)
qed

theorem syntax_errors_make_fix_unsafe_witness:
  "has_obvious_syntax_errors ''if (x) { return 1;'' ''java''
   \<and> \<not> is_safe (validate_fix ''return 0;'' ''if (x) { return 1;'' scenario_A ''java'')"
proof -
  have h: "(''java'' \<in> set brace_languages
             \<and> (count_list ''if (x) { return 1;'' CHR ''{'' \<noteq> count_list ''if (x) { return 1;'' CHR ''}''
                \<or> count_list ''if (x) { return 1;'' CHR ''('' \<noteq> count_list ''if (x) { return 1;'' CHR '')''))
         \<or> count_list ''if (x) { return 1;'' CHR ''['' \<noteq> count_list ''if (x) { return 1;'' CHR '']''
         \<or> odd (count_unescaped (CHR 0x22) ''if (x) { return 1;'')
         \<or> odd (count_unescaped (CHR 0x27) ''if (x) { return 1;'')"
    by (simp add: brace_languages_def)
  show ?thesis
    by (rule syntax_errors_make_fix_unsafe[OF h])
qed

text \<open>
  The claim as first stated covers every detected language and every quote. A Python
  fix with an open parenthesis is safe, and so is a Java fix whose three double quotes
  include an escaped one.
\<close>

theorem unbalanced_python_and_escaped_quote_counterexample:
  "detect_language ''tools/report.py'' = ''python''
   \<and> count_list ''total = add(1, 2'' CHR ''('' \<noteq> count_list ''total = add(1, 2'' CHR '')''
   \<and> is_safe (validate_fix ''total = 1'' ''total = add(1, 2''
                (scenario_A\<lparr>file_path := ''tools/report.py''\<rparr>)
                (detect_language ''tools/report.py''))
   \<and> detect_language (file_path scenario_A) = ''java''
   \<and> odd (count_list quoted_fix (CHR 0x22))
   \<and> is_safe (validate_fix ''String s = null;'' quoted_fix scenario_A
                (detect_language (file_path scenario_A)))"
  by code_simp

text \<open>
  Claim C8, as amended. The validator warns that error handling may have been removed
  exactly when fewer of the six keywords try, catch, except, finally, throw and raise
  occur (as substrings, ignoring case) in the fixed code than in the original: each
  keyword counts once, however often it occurs.
\<close>

theorem error_handling_warning_iff:
  "''Error handling may have been removed'' \<in> set (warnings (validate_fix original fixed f lang))
   \<longleftrightarrow> card {kw \<in> set error_handling_keywords. py_in kw (lower fixed)}
         < card {kw \<in> set error_handling_keywords. py_in kw (lower original)}"
proof -
  have d: "distinct error_handling_keywords"
    by (simp add: error_handling_keywords_def)
  have c: "card {kw \<in> set error_handling_keywords. py_in kw (lower t)}
              = error_handling_count t" for t
  proof -
    have e: "{kw \<in> set error_handling_keywords. py_in kw (lower t)}
          = set (filter (\<lambda>kw. py_in kw (lower t)) error_handling_keywords)"
      by auto
    have "card (set (filter (\<lambda>kw. py_in kw (lower t)) error_handling_keywords))
          = length (filter (\<lambda>kw. py_in kw (lower t)) error_handling_keywords)"
      using d by (intro distinct_card distinct_filter)
    then show ?thesis
      unfolding e error_handling_count_def .
  qed
  show ?thesis
    unfolding c by (simp add: validate_fix_def Let_def)
qed

theorem error_handling_warning_iff_witness:
  "''Error handling may have been removed''
     \<in> set (warnings (validate_fix ''try { a(); } catch (E e) { }'' ''a();'' scenario_A ''java''))
   \<and> card {kw \<in> set error_handling_keywords. py_in kw (lower ''a();'')}
       < card {kw \<in> set error_handling_keywords.
               py_in kw (lower ''try { a(); } catch (E e) { }'')}"
proof -
  have w: "''Error handling may have been removed''
     \<in> set (warnings (validate_fix ''try { a(); } catch (E e) { }'' ''a();'' scenario_A ''java''))"
    by code_simp
  have c: "card {kw \<in> set error_handling_keywords. py_in kw (lower ''a();'')}
       < card {kw \<in> set error_handling_keywords.
               py_in kw (lower ''try { a(); } catch (E e) { }'')}"
    by (rule iffD1[OF error_handling_warning_iff w])
  from w c show ?thesis by (rule conjI)
qed

text \<open>
  The claim as first stated counts occurrences. A fix that merges two handlers into
  one has fewer occurrences and draws no warning.
\<close>

theorem occurrences_drop_without_warning_counterexample:
  "spec_keyword_occurrences one_handler < spec_keyword_occurrences two_handlers
   \<and> ''Error handling may have been removed''
       \<notin> set (warnings (validate_fix two_handlers one_handler scenario_A ''java''))"
  by code_simp

section \<open>False-positive analysis: extraction and the conservative result\<close>

lemma find_char_first:
  "c \<notin> set pre \<Longrightarrow> find_char c (pre @ c # rest) = int (length pre)"
  by (induction pre) (auto simp: Let_def)

lemma rfind_char_absent: "c \<notin> set s \<Longrightarrow> rfind_char c s = -1"
  by (induction s) (auto simp: Let_def)

lemma rfind_char_last:
  "c \<notin> set post \<Longrightarrow> rfind_char c (xs @ c # post) = int (length xs)"
  by (induction xs) (auto simp: Let_def rfind_char_absent)

lemma extract_json_outer_braces:
  assumes "strip r = pre @ CHR ''{'' # mid @ CHR ''}'' # post"
      and "CHR ''{'' \<notin> set pre" and "CHR ''}'' \<notin> set post"
  shows "extract_json r = CHR ''{'' # mid @ [CHR ''}'']"
proof -
  have s: "find_char CHR ''{'' (strip r) = int (length pre)"
    unfolding assms(1) by (rule find_char_first[OF assms(2)])
  have "strip r = (pre @ CHR ''{'' # mid) @ CHR ''}'' # post"
    by (simp add: assms(1))
  then have e: "rfind_char CHR ''}'' (strip r) = int (length pre) + 1 + int (length mid)"
    using rfind_char_last[OF assms(3), of "pre @ CHR ''{'' # mid"] by simp
  have sl: "py_slice (strip r) (int (length pre)) (int (length pre) + 1 + int (length mid) + 1)
            = CHR ''{'' # mid @ [CHR ''}'']"
    by (simp add: py_slice_def slice_index_def Let_def assms(1) nat_add_distrib)
  show ?thesis
    unfolding extract_json_def Let_def s e using sl by simp
qed

text \<open>
  Claim C6. When the answer of the model, once stripped, holds an opening brace and a
  later closing brace, the text from the first opening brace to the last closing brace
  is what \<open>json.loads\<close> reads, and the fields of the object it gives are the fields of
  the analysis: an object wrapped in prose is used. When the model call raises, the
  text does not parse, or anything else in the analysis raises, \<open>analyze\<close> returns a
  verdict of False with confidence 0 and a recommendation of manual review. \<open>analyze\<close>
  is a total function into analyses: no exception reaches its caller.
\<close>

theorem analyze_uses_outer_object_else_conservative:
  "(analysis_prompt_error rd = None
     \<and> strip r = pre @ CHR ''{'' # mid @ CHR ''}'' # post
     \<and> CHR ''{'' \<notin> set pre \<and> CHR ''}'' \<notin> set post
     \<and> json_loads lib (CHR ''{'' # mid @ [CHR ''}'']) = Some (JObj kvs)
     \<and> py_float lib (case map_of kvs ''confidence'' of Some v \<Rightarrow> v | None \<Rightarrow> JNum 0) = Inr conf
     \<longrightarrow> analyze lib (Inr r) f ctx rd
         = \<lparr>is_false_positive =
              (case map_of kvs ''is_false_positive'' of Some v \<Rightarrow> v | None \<Rightarrow> JBool False),
            fp_confidence = conf,
            reasoning = (case map_of kvs ''reasoning'' of Some v \<Rightarrow> v | None \<Rightarrow> JStr []),
            evidence = (case map_of kvs ''evidence'' of Some v \<Rightarrow> v | None \<Rightarrow> JArr []),
            recommendation =
              (case map_of kvs ''recommendation'' of Some v \<Rightarrow> v | None \<Rightarrow> JStr [])\<rparr>)
   \<and> ((\<exists>err. answer = Inl err)
        \<or> (\<exists>t. answer = Inr t \<and> json_loads lib (extract_json t) = None)
        \<or> (\<exists>err. analyze_try lib answer f ctx rd = Inl err)
     \<longrightarrow> is_false_positive (analyze lib answer f ctx rd) = JBool False
         \<and> fp_confidence (analyze lib answer f ctx rd) = 0
         \<and> (recommendation (analyze lib answer f ctx rd) = JStr ''Manual review required''
            \<or> recommendation (analyze lib answer f ctx rd)
                = JStr ''Manual review required due to analysis error''))"
proof -
  have first: "analysis_prompt_error rd = None
     \<and> strip r = pre @ CHR ''{'' # mid @ CHR ''}'' # post
     \<and> CHR ''{'' \<notin> set pre \<and> CHR ''}'' \<notin> set post
     \<and> json_loads lib (CHR ''{'' # mid @ [CHR ''}'']) = Some (JObj kvs)
     \<and> py_float lib (case map_of kvs ''confidence'' of Some v \<Rightarrow> v | None \<Rightarrow> JNum 0) = Inr conf
     \<longrightarrow> analyze lib (Inr r) f ctx rd
         = \<lparr>is_false_positive =
              (case map_of kvs ''is_false_positive'' of Some v \<Rightarrow> v | None \<Rightarrow> JBool False),
            fp_confidence = conf,
            reasoning = (case map_of kvs ''reasoning'' of Some v \<Rightarrow> v | None \<Rightarrow> JStr []),
            evidence = (case map_of kvs ''evidence'' of Some v \<Rightarrow> v | None \<Rightarrow> JArr []),
            recommendation =
              (case map_of kvs ''recommendation'' of Some v \<Rightarrow> v | None \<Rightarrow> JStr [])\<rparr>"
  proof (rule impI)
    assume a: "analysis_prompt_error rd = None
       \<and> strip r = pre @ CHR ''{'' # mid @ CHR ''}'' # post
       \<and> CHR ''{'' \<notin> set pre \<and> CHR ''}'' \<notin> set post
       \<and> json_loads lib (CHR ''{'' # mid @ [CHR ''}'']) = Some (JObj kvs)
       \<and> py_float lib (case map_of kvs ''confidence'' of Some v \<Rightarrow> v | None \<Rightarrow> JNum 0) = Inr conf"
    then have x: "extract_json r = CHR ''{'' # mid @ [CHR ''}'']"
      using extract_json_outer_braces by blast
    show "analyze lib (Inr r) f ctx rd
           = \<lparr>is_false_positive =
                (case map_of kvs ''is_false_positive'' of Some v \<Rightarrow> v | None \<Rightarrow> JBool False),
              fp_confidence = conf,
              reasoning = (case map_of kvs ''reasoning'' of Some v \<Rightarrow> v | None \<Rightarrow> JStr []),
              evidence = (case map_of kvs ''evidence'' of Some v \<Rightarrow> v | None \<Rightarrow> JArr []),
              recommendation =
                (case map_of kvs ''recommendation'' of Some v \<Rightarrow> v | None \<Rightarrow> JStr [])\<rparr>"
      using a by (simp add: analyze_def analyze_try_def parse_response_def x)
  qed
  have second: "(\<exists>err. answer = Inl err)
        \<or> (\<exists>t. answer = Inr t \<and> json_loads lib (extract_json t) = None)
        \<or> (\<exists>err. analyze_try lib answer f ctx rd = Inl err)
     \<longrightarrow> is_false_positive (analyze lib answer f ctx rd) = JBool False
         \<and> fp_confidence (analyze lib answer f ctx rd) = 0
         \<and> (recommendation (analyze lib answer f ctx rd) = JStr ''Manual review required''
            \<or> recommendation (analyze lib answer f ctx rd)
                = JStr ''Manual review required due to analysis error'')"
  proof (rule impI)
    assume b: "(\<exists>err. answer = Inl err)
          \<or> (\<exists>t. answer = Inr t \<and> json_loads lib (extract_json t) = None)
          \<or> (\<exists>err. analyze_try lib answer f ctx rd = Inl err)"
    have c: "(\<exists>err. analyze lib answer f ctx rd = error_analysis err)
           \<or> analyze lib answer f ctx rd = unparsed_analysis"
      using b
      by (auto simp: analyze_def analyze_try_def parse_response_def
               split: option.splits sum.splits)
    then show "is_false_positive (analyze lib answer f ctx rd) = JBool False
           \<and> fp_confidence (analyze lib answer f ctx rd) = 0
           \<and> (recommendation (analyze lib answer f ctx rd) = JStr ''Manual review required''
              \<or> recommendation (analyze lib answer f ctx rd)
                  = JStr ''Manual review required due to analysis error'')"
      by (auto simp: error_analysis_def unparsed_analysis_def)
  qed
  from first second show ?thesis by (rule conjI)
qed

theorem analyze_uses_outer_object_else_conservative_witness:
  "analyze example_lib (Inr fp_yes_reply) scenario_A plain_context None
     = \<lparr>is_false_positive = JBool True, fp_confidence = 95 / 100, reasoning = JStr [],
        evidence = JArr [], recommendation = JStr []\<rparr>
   \<and> is_false_positive (analyze example_lib (Inr ''I cannot tell.'') scenario_A plain_context None)
       = JBool False
   \<and> fp_confidence (analyze example_lib (Inr ''I cannot tell.'') scenario_A plain_context None) = 0"
proof -
  have s: "strip fp_yes_reply
           = ''Sure! '' @ CHR ''{'' # ''\"is_false_positive\": true, \"confidence\": 0.95''
               @ CHR ''}'' # '' Hope that helps!''"
    by code_simp
  have l: "json_loads example_lib
             (CHR ''{'' # ''\"is_false_positive\": true, \"confidence\": 0.95'' @ [CHR ''}''])
           = Some (JObj [(''is_false_positive'', JBool True), (''confidence'', JNum (95 / 100))])"
    by code_simp
  have p: "py_float example_lib
             (case map_of [(''is_false_positive'', JBool True), (''confidence'', JNum (95 / 100))]
                     ''confidence'' of Some v \<Rightarrow> v | None \<Rightarrow> JNum 0) = Inr (95 / 100)"
    by (simp add: py_float_def)
  have n: "json_loads example_lib (extract_json ''I cannot tell.'') = None"
    by code_simp
  have pe: "analysis_prompt_error None = None"
    by (simp add: analysis_prompt_error_def)
  have nb1: "CHR ''{'' \<notin> set ''Sure! ''" by simp
  have nb2: "CHR ''}'' \<notin> set '' Hope that helps!''" by simp
  have one: "analyze example_lib (Inr fp_yes_reply) scenario_A plain_context None
     = \<lparr>is_false_positive = JBool True, fp_confidence = 95 / 100, reasoning = JStr [],
        evidence = JArr [], recommendation = JStr []\<rparr>"
    using analyze_uses_outer_object_else_conservative
            [where rd = None and r = fp_yes_reply and pre = "''Sure! ''"
               and mid = "''\"is_false_positive\": true, \"confidence\": 0.95''"
               and post = "'' Hope that helps!''" and lib = example_lib
               and kvs = "[(''is_false_positive'', JBool True), (''confidence'', JNum (95 / 100))]"
               and conf = "95 / 100" and f = scenario_A and ctx = plain_context
               and answer = "Inr ''I cannot tell.''", THEN conjunct1, THEN mp]
          pe s l p nb1 nb2
    by simp
  have two: "is_false_positive (analyze example_lib (Inr ''I cannot tell.'') scenario_A plain_context None)
       = JBool False
     \<and> fp_confidence (analyze example_lib (Inr ''I cannot tell.'') scenario_A plain_context None) = 0"
    using analyze_uses_outer_object_else_conservative
            [where lib = example_lib and answer = "Inr ''I cannot tell.''"
               and f = scenario_A and ctx = plain_context and rd = None,
             THEN conjunct2, THEN mp] n
    by simp
  from one two show ?thesis by blast
qed

section \<open>Rate limiting\<close>

text \<open>
  The window: a check at or after the reset time zeroes both counters and sets the
  reset time an hour after the second reading of the clock; before the reset time a
  check changes nothing, and a PR counter at its cap refuses the PR.
\<close>

lemma rate_limit_reset_when_due:
  assumes "rate_limit_reset_time s \<le> now_at e (clock_reads s)"
  shows "prs_created_this_hour (reset_rate_limits_if_needed e s) = 0
       \<and> comments_posted_this_hour (reset_rate_limits_if_needed e s) = 0
       \<and> rate_limit_reset_time (reset_rate_limits_if_needed e s)
           = now_at e (Suc (clock_reads s)) + one_hour"
  using assms by (simp add: reset_rate_limits_if_needed_def now_def)

lemma rate_limit_kept_before_reset:
  assumes "now_at e (clock_reads s) < rate_limit_reset_time s"
  shows "reset_rate_limits_if_needed e s = s\<lparr>clock_reads := Suc (clock_reads s)\<rparr>"
  using assms by (simp add: reset_rate_limits_if_needed_def now_def)

lemma check_pr_false_at_cap:
  assumes "now_at e (clock_reads s) < rate_limit_reset_time s"
      and "max_prs_per_hour cfg \<le> prs_created_this_hour s"
  shows "\<not> fst (check_rate_limit cfg e ''pr'' s)"
  using assms by (simp add: check_rate_limit_def rate_limit_kept_before_reset)

lemma check_pr_after_reset:
  assumes "rate_limit_reset_time s \<le> now_at e (clock_reads s)"
  shows "fst (check_rate_limit cfg e ''pr'' s) = (0 < max_prs_per_hour cfg)
       \<and> prs_created_this_hour (snd (check_rate_limit cfg e ''pr'' s)) = 0"
  using rate_limit_reset_when_due[OF assms] by (simp add: check_rate_limit_def Let_def)

lemma reset_prs_counter:
  "prs_created_this_hour (reset_rate_limits_if_needed e s) = prs_created_this_hour s
   \<or> prs_created_this_hour (reset_rate_limits_if_needed e s) = 0"
  by (simp add: reset_rate_limits_if_needed_def now_def Let_def)

lemma comment_if_allowed_prs_counter:
  "prs_created_this_hour (comment_if_allowed cfg e k c s) = prs_created_this_hour s
   \<or> prs_created_this_hour (comment_if_allowed cfg e k c s) = 0"
  using reset_prs_counter[of e s]
  by (auto simp: comment_if_allowed_def check_rate_limit_def add_comment_def perform_def Let_def)

lemma pr_counter_needs_created_pr:
  assumes "created_pr e = None" and "0 \<le> prs_created_this_hour s"
  shows "prs_created_this_hour (create_fix_pr cfg e f fr ra s) \<le> prs_created_this_hour s"
  using assms reset_prs_counter[of e s]
  by (auto simp: create_fix_pr_def check_rate_limit_def perform_def Let_def)

text \<open>
  Claim C7. The reset and the cap behave as the claim says (the four lemmas above), and
  the PR counter moves only when \<open>create_pull_request\<close> returned a pull request. The
  comment counter does not wait for success: \<open>add_comment\<close> returns False when the
  finding source rejects the comment, the agent drops that result and increments. With
  a finding source that rejects every comment, processing scenario A posts nothing and
  leaves the counter at 1.
\<close>

theorem failed_comment_still_counted:
  "actions (snd (process_finding example_lib default_config env_deaf scenario_A agent0))
     = [AddComment ''AX-1''
          (RiskComment (assess (json_loads example_lib) (risk_answer env_deaf) scenario_A
                          plain_context None))
          False,
        LogTrackingOnly]
   \<and> comments_posted_this_hour agent0 = 0
   \<and> comments_posted_this_hour
       (snd (process_finding example_lib default_config env_deaf scenario_A agent0)) = 1"
  by code_simp

section \<open>The workflow: which branch was taken\<close>

lemma perform_actions: "actions (perform a s) = actions s @ [a]"
  by (simp add: perform_def)

lemma reset_actions: "actions (reset_rate_limits_if_needed e s) = actions s"
  by (simp add: reset_rate_limits_if_needed_def now_def Let_def)

lemma check_rate_limit_actions:
  "check_rate_limit cfg e operation s = (b, s1) \<Longrightarrow> actions s1 = actions s"
  by (auto simp: check_rate_limit_def Let_def reset_actions split: if_splits)

lemma comment_if_allowed_mem:
  assumes "\<not> routine_call a"
  shows "(a \<in> set (actions (comment_if_allowed cfg e k c s))) = (a \<in> set (actions s))"
proof -
  obtain b s1 where c: "check_rate_limit cfg e ''comment'' s = (b, s1)"
    by (cases "check_rate_limit cfg e ''comment'' s") auto
  have a1: "actions s1 = actions s"
    using c by (rule check_rate_limit_actions)
  show ?thesis
    using assms a1
    by (auto simp: comment_if_allowed_def c add_comment_def perform_actions Let_def)
qed

lemma create_fix_pr_mem:
  assumes "\<not> routine_call a"
  shows "(a \<in> set (actions (create_fix_pr cfg e f fr ra s))) = (a \<in> set (actions s))"
proof -
  obtain b s1 where c: "check_rate_limit cfg e ''pr'' s = (b, s1)"
    by (cases "check_rate_limit cfg e ''pr'' s") auto
  have a1: "actions s1 = actions s"
    using c by (rule check_rate_limit_actions)
  show ?thesis
    using assms a1
    by (auto simp: create_fix_pr_def c perform_actions Let_def comment_if_allowed_mem
             split: option.splits)
qed

lemma escalate_mem:
  assumes "\<not> routine_call a"
  shows "(a \<in> set (actions (escalate_to_human cfg e f ra reason s)))
         = (a = LogEscalated reason \<or> a \<in> set (actions s))"
  using assms
  by (auto simp: escalate_to_human_def perform_actions comment_if_allowed_mem)

lemma handle_false_positive_mem:
  assumes "\<not> routine_call a"
  shows "(a \<in> set (actions (snd (handle_false_positive cfg e f an s))))
         = (a \<in> set (actions s)
            \<or> (a = TransitionIssue (key f) ''wontfix''
                     ''Marked as false positive by automated analysis''
               \<and> auto_mark cfg \<and> fp_confidence an > require_review_below cfg
               \<and> \<not> (fst (check_rate_limit cfg e ''comment'' s)
                     \<and> fp_comment_error an \<noteq> None)))"
proof -
  obtain b s1 where c: "check_rate_limit cfg e ''comment'' s = (b, s1)"
    by (cases "check_rate_limit cfg e ''comment'' s") auto
  have a1: "actions s1 = actions s"
    using c by (rule check_rate_limit_actions)
  show ?thesis
    using assms a1
    by (auto simp: handle_false_positive_def c add_comment_def perform_actions Let_def)
qed

lemma fix_phase_mem:
  assumes "\<not> routine_call a"
  shows "(a \<in> set (actions (snd (fix_phase lib cfg e f ctx file ra s))))
         = (a \<in> set (actions s) \<or> a = CallGenerateFix
            \<or> (\<exists>reason. escalation_of cfg
                  (generate_fix lib (fix_answer e) f ctx file (rule_details e)) = Some reason
                \<and> a = LogEscalated reason))"
  using assms
  by (auto simp: fix_phase_def escalation_of_def perform_actions escalate_mem create_fix_pr_mem
                 Let_def
           split: option.splits sum.splits)

lemma process_finding_mem:
  assumes "\<not> routine_call a"
  shows "(a \<in> set (actions (snd (process_finding lib cfg e f s))))
         = (a \<in> set (actions s)
            \<or> (\<exists>ctx. get_code_context e f = Some ctx \<and> ctx \<noteq> []
                 \<and> (if truthy (is_false_positive (analyze lib (fp_answer e) f ctx (rule_details e)))
                        \<and> fp_confidence (analyze lib (fp_answer e) f ctx (rule_details e))
                            \<ge> fp_min_confidence cfg
                     then a = TransitionIssue (key f) ''wontfix''
                                ''Marked as false positive by automated analysis''
                          \<and> auto_mark cfg
                          \<and> fp_confidence (analyze lib (fp_answer e) f ctx (rule_details e))
                              > require_review_below cfg
                          \<and> \<not> (fst (check_rate_limit cfg e ''comment''
                                       (s\<lparr>findings_analyzed := findings_analyzed s + 1\<rparr>))
                                \<and> fp_comment_error
                                      (analyze lib (fp_answer e) f ctx (rule_details e)) \<noteq> None)
                     else if priority (assess (json_loads lib) (risk_answer e) f ctx (rule_details e))
                               \<in> set (auto_fix_priorities cfg)
                     then a = LogAttemptFix
                          \<or> (\<exists>file. get_full_file e f = Some file \<and> file \<noteq> []
                                \<and> (a = CallGenerateFix
                                   \<or> (\<exists>reason. escalation_of cfg
                                         (generate_fix lib (fix_answer e) f ctx file (rule_details e))
                                           = Some reason
                                       \<and> a = LogEscalated reason)))
                     else a = LogTrackingOnly)))"
proof (cases "get_code_context e f")
  case None
  then show ?thesis by (simp add: process_finding_def)
next
  case (Some ctx)
  show ?thesis
  proof (cases "ctx = []")
    case True
    with Some show ?thesis by (simp add: process_finding_def)
  next
    case False
    show ?thesis
    proof (cases "truthy (is_false_positive (analyze lib (fp_answer e) f ctx (rule_details e)))
                  \<and> fp_confidence (analyze lib (fp_answer e) f ctx (rule_details e))
                        \<ge> fp_min_confidence cfg")
      case True
      with Some False assms show ?thesis
        by (simp add: process_finding_def Let_def case_prod_beta
                      handle_false_positive_mem)
    next
      case nofp: False
      show ?thesis
      proof (cases "priority (assess (json_loads lib) (risk_answer e) f ctx (rule_details e))
                               \<in> set (auto_fix_priorities cfg)")
        case True
        with Some False nofp assms show ?thesis
          by (auto simp: process_finding_def Let_def perform_actions comment_if_allowed_mem
                         fix_phase_mem
                   split: option.splits)
      next
        case notauto: False
        with Some False nofp assms show ?thesis
          by (auto simp: process_finding_def Let_def perform_actions comment_if_allowed_mem)
      qed
    qed
  qed
qed

text \<open>
  Claim C4. A won't-fix transition is issued while a finding is processed only when
  the verdict of the false-positive analysis is true, its confidence is at least the
  is-false-positive threshold and exceeds the require-review threshold (and automatic
  marking is on, as it is by default); the default thresholds are 0.85 and 0.70. So a
  confidence at or below the require-review threshold never triggers the transition.
\<close>

theorem wontfix_only_above_both_thresholds:
  assumes "TransitionIssue k t c \<in> set (actions (snd (process_finding lib cfg e f s)))"
      and "TransitionIssue k t c \<notin> set (actions s)"
  shows "(\<exists>ctx. get_code_context e f = Some ctx
            \<and> truthy (is_false_positive (analyze lib (fp_answer e) f ctx (rule_details e)))
            \<and> fp_confidence (analyze lib (fp_answer e) f ctx (rule_details e))
                \<ge> fp_min_confidence cfg
            \<and> fp_confidence (analyze lib (fp_answer e) f ctx (rule_details e))
                > require_review_below cfg)
       \<and> auto_mark cfg \<and> k = key f \<and> t = ''wontfix''
       \<and> fp_min_confidence default_config = 85 / 100
       \<and> require_review_below default_config = 70 / 100"
proof -
  have nr: "\<not> routine_call (TransitionIssue k t c)" by simp
  from assms process_finding_mem[OF nr, of lib cfg e f s]
  show ?thesis
    by (auto simp: default_config_def split: if_splits)
qed

theorem wontfix_only_above_both_thresholds_witness:
  "(\<exists>ctx. get_code_context env_fp scenario_A = Some ctx
            \<and> truthy (is_false_positive
                        (analyze example_lib (fp_answer env_fp) scenario_A ctx (rule_details env_fp)))
            \<and> fp_confidence (analyze example_lib (fp_answer env_fp) scenario_A ctx (rule_details env_fp))
                \<ge> fp_min_confidence default_config
            \<and> fp_confidence (analyze example_lib (fp_answer env_fp) scenario_A ctx (rule_details env_fp))
                > require_review_below default_config)
       \<and> auto_mark default_config \<and> ''AX-1'' = key scenario_A \<and> ''wontfix'' = ''wontfix''
       \<and> fp_min_confidence default_config = 85 / 100
       \<and> require_review_below default_config = 70 / 100"
proof -
  have h1: "TransitionIssue ''AX-1'' ''wontfix'' ''Marked as false positive by automated analysis''
              \<in> set (actions (snd (process_finding example_lib default_config env_fp scenario_A agent0)))"
    by code_simp
  have h2: "TransitionIssue ''AX-1'' ''wontfix'' ''Marked as false positive by automated analysis''
              \<notin> set (actions agent0)"
    by (simp add: agent0_def)
  show ?thesis
    by (rule wontfix_only_above_both_thresholds[OF h1 h2])
qed

text \<open>
  Claim C5, as amended. Whenever processing a finding escalates it to human review,
  the reason is one of two, told apart by whether a safe fix existed: Complex fix
  required when the fix generator returned nothing or a fix whose validation is not
  safe, Low confidence fix when it returned a fix whose validation is safe and whose
  confidence is below the threshold.
\<close>

theorem escalation_reason_by_safe_fix:
  assumes "LogEscalated reason \<in> set (actions (snd (process_finding lib cfg e f s)))"
      and "LogEscalated reason \<notin> set (actions s)"
  shows "\<exists>ctx file. get_code_context e f = Some ctx \<and> get_full_file e f = Some file
          \<and> (case generate_fix lib (fix_answer e) f ctx file (rule_details e) of
               None \<Rightarrow> reason = ''Complex fix required''
             | Some fr \<Rightarrow>
                 if is_safe (validation fr)
                 then reason = ''Low confidence fix''
                      \<and> (\<exists>c. as_number (fix_confidence fr) = Inr c \<and> c < fix_min_confidence cfg)
                 else reason = ''Complex fix required'')"
proof -
  have nr: "\<not> routine_call (LogEscalated reason)" by simp
  from assms process_finding_mem[OF nr, of lib cfg e f s]
  obtain ctx contents where
    c: "get_code_context e f = Some ctx" and f: "get_full_file e f = Some contents"
    and r: "escalation_of cfg (generate_fix lib (fix_answer e) f ctx contents (rule_details e))
              = Some reason"
    by (auto split: if_splits)
  from r have "case generate_fix lib (fix_answer e) f ctx contents (rule_details e) of
               None \<Rightarrow> reason = ''Complex fix required''
             | Some fr \<Rightarrow>
                 if is_safe (validation fr)
                 then reason = ''Low confidence fix''
                      \<and> (\<exists>c. as_number (fix_confidence fr) = Inr c \<and> c < fix_min_confidence cfg)
                 else reason = ''Complex fix required''"
    by (auto simp: escalation_of_def split: option.splits sum.splits if_splits)
  with c f show ?thesis by blast
qed

theorem escalation_reason_by_safe_fix_witness:
  "\<exists>ctx file. get_code_context env_C scenario_sql = Some ctx
          \<and> get_full_file env_C scenario_sql = Some file
          \<and> (case generate_fix example_lib (fix_answer env_C) scenario_sql ctx file
                    (rule_details env_C) of
               None \<Rightarrow> ''Complex fix required'' = ''Complex fix required''
             | Some fr \<Rightarrow>
                 if is_safe (validation fr)
                 then ''Complex fix required'' = ''Low confidence fix''
                      \<and> (\<exists>c. as_number (fix_confidence fr) = Inr c
                              \<and> c < fix_min_confidence default_config)
                 else ''Complex fix required'' = ''Complex fix required'')"
proof -
  have h1: "LogEscalated ''Complex fix required''
              \<in> set (actions (snd (process_finding example_lib default_config env_C scenario_sql agent0)))"
    by code_simp
  have h2: "LogEscalated ''Complex fix required'' \<notin> set (actions agent0)"
    by (simp add: agent0_def)
  show ?thesis
    by (rule escalation_reason_by_safe_fix[OF h1 h2])
qed

text \<open>
  The claim as first stated tells the reasons apart by whether a fix result existed at
  all. A fix that repeats its input exists, fails validation, and is escalated as
  Complex fix required.
\<close>

theorem unsafe_fix_result_escalates_as_complex_counterexample:
  "generate_fix example_lib (fix_answer env_C) scenario_sql rest_context
      ''class UserController { }'' (rule_details env_C) \<noteq> None
   \<and> get_code_context env_C scenario_sql = Some rest_context
   \<and> get_full_file env_C scenario_sql = Some ''class UserController { }''
   \<and> LogEscalated ''Complex fix required''
       \<in> set (actions (snd (process_finding example_lib default_config env_C scenario_sql agent0)))
   \<and> LogEscalated ''Low confidence fix''
       \<notin> set (actions (snd (process_finding example_lib default_config env_C scenario_sql agent0)))"
  by code_simp

section \<open>Scenario A and the error path of the risk assessor\<close>

lemma no_keyword_fold:
  "\<not> list_ex (\<lambda>(kw, sc). py_in kw cl) kws \<Longrightarrow>
   fold (\<lambda>(keyword, keyword_score) score.
           if py_in keyword cl then max score keyword_score else score) kws sc0 = sc0"
  by (induction kws arbitrary: sc0) auto

lemma scenario_A_exploitability:
  assumes "rule_key f = ''java:S2259''" and "severity f = ''HIGH''"
  shows "calculate_exploitability f None = Inr 6"
proof -
  have n: "first_category RULE_EXPLOITABILITY (lower ''java:S2259'') = None"
    by code_simp
  show ?thesis
    by (simp add: calculate_exploitability_def assms n severity_map_def)
qed

lemma scenario_A_impact:
  assumes "file_path f = ''src/main/UserService.java''"
      and "\<not> list_ex (\<lambda>(kw, sc). py_in kw (lower ctx)) sensitive_keywords"
  shows "calculate_impact f ctx = 9"
proof -
  have h: "any_in HIGH_IMPACT_PATHS (lower ''src/main/UserService.java'') = True"
    by code_simp
  have l: "any_in LOW_IMPACT_PATHS (lower ''src/main/UserService.java'') = False"
    by code_simp
  show ?thesis
    by (simp add: calculate_impact_def assms(1) h l Let_def no_keyword_fold[OF assms(2)])
qed

lemma scenario_A_exposure:
  assumes "file_path f = ''src/main/UserService.java''"
      and "\<not> list_ex (\<lambda>i. py_in i ctx) api_indicators"
      and "\<not> list_ex (\<lambda>p. py_in p ctx) auth_patterns"
  shows "calculate_exposure f ctx = 5"
proof -
  have t: "py_in ''test'' (lower ''src/main/UserService.java'') = False"
    by code_simp
  show ?thesis
    using assms(2,3) by (simp add: calculate_exposure_def assms(1) t Let_def)
qed

text \<open>
  Claim C3, as amended. For a finding with rule java:S2259, severity HIGH and file path
  src/main/UserService.java, no rule metadata, and a code context with no sensitive
  keyword, entry-point marker or authorization guard, an assessment on the non-error
  path has exploitability 6, impact 9 and exposure 5, so its risk score is 2.7 times
  the confidence: for every confidence up to 1 the priority is P3, which is not in the
  default auto-fix set, and the fix generator is not called while the finding is
  processed.
\<close>

theorem scenario_A_scores_and_tracking_only:
  assumes "rule_key f = ''java:S2259''" and "severity f = ''HIGH''"
      and "file_path f = ''src/main/UserService.java''"
      and "rule_details e = None"
      and "get_code_context e f = Some ctx"
      and "\<not> list_ex (\<lambda>(kw, sc). py_in kw (lower ctx)) sensitive_keywords"
      and "\<not> list_ex (\<lambda>i. py_in i ctx) api_indicators"
      and "\<not> list_ex (\<lambda>p. py_in p ctx) auth_patterns"
      and "assess_try (json_loads lib) (risk_answer e) f ctx None = Inr ra"
      and "confidence ra \<le> 1"
      and "CallGenerateFix \<notin> set (actions s)"
  shows "exploitability ra = 6 \<and> impact ra = 9 \<and> exposure ra = 5
       \<and> risk_score ra = 27 / 10 * confidence ra
       \<and> priority ra = ''P3''
       \<and> priority ra \<notin> set (auto_fix_priorities default_config)
       \<and> CallGenerateFix \<notin> set (actions (snd (process_finding lib default_config e f s)))"
proof -
  note x = scenario_A_exploitability[OF assms(1,2)]
  note i = scenario_A_impact[OF assms(3,6)]
  note p = scenario_A_exposure[OF assms(3,7,8)]
  from assess_try_InrD[OF assms(9)] x i p obtain conf just bc where
    ra: "ra = \<lparr>risk_score = of_int (6 * 9 * 5) / 100 * conf,
                priority = calculate_priority (of_int (6 * 9 * 5) / 100 * conf),
                exploitability = 6, impact = 9, exposure = 5, confidence = conf,
                justification = just, business_context = bc,
                recommended_sla = calculate_sla (calculate_priority
                   (of_int (6 * 9 * 5) / 100 * conf))\<rparr>"
    by auto
  have c: "conf \<le> 1" using assms(10) by (simp add: ra)
  have sc: "exploitability ra = 6 \<and> impact ra = 9 \<and> exposure ra = 5
            \<and> risk_score ra = 27 / 10 * confidence ra"
    by (simp add: ra)
  have pr: "priority ra = ''P3''"
    using c by (simp add: ra calculate_priority_def)
  have np: "priority ra \<notin> set (auto_fix_priorities default_config)"
    by (simp add: pr default_config_def)
  have a: "assess (json_loads lib) (risk_answer e) f ctx (rule_details e) = ra"
    by (simp add: assess_def assms(4) assms(9))
  have nr: "\<not> routine_call CallGenerateFix" by simp
  have nf: "CallGenerateFix \<notin> set (actions (snd (process_finding lib default_config e f s)))"
    using process_finding_mem[OF nr, of lib default_config e f s] assms(5,11) np a
    by (auto split: if_splits)
  from sc pr np nf show ?thesis by blast
qed

theorem scenario_A_scores_and_tracking_only_witness:
  "exploitability (assess (json_loads example_lib) (risk_answer env_A) scenario_A plain_context None) = 6
   \<and> impact (assess (json_loads example_lib) (risk_answer env_A) scenario_A plain_context None) = 9
   \<and> exposure (assess (json_loads example_lib) (risk_answer env_A) scenario_A plain_context None) = 5
   \<and> priority (assess (json_loads example_lib) (risk_answer env_A) scenario_A plain_context None)
       = ''P3''
   \<and> CallGenerateFix
       \<notin> set (actions (snd (process_finding example_lib default_config env_A scenario_A agent0)))"
proof -
  have h1: "rule_key scenario_A = ''java:S2259''" by (simp add: scenario_A_def)
  have h2: "severity scenario_A = ''HIGH''" by (simp add: scenario_A_def)
  have h3: "file_path scenario_A = ''src/main/UserService.java''" by (simp add: scenario_A_def)
  have h4: "rule_details env_A = None" by (simp add: env_A_def)
  have h5: "get_code_context env_A scenario_A = Some plain_context" by code_simp
  have h6: "\<not> list_ex (\<lambda>(kw, sc). py_in kw (lower plain_context)) sensitive_keywords"
    by code_simp
  have h7: "\<not> list_ex (\<lambda>i. py_in i plain_context) api_indicators" by code_simp
  have h8: "\<not> list_ex (\<lambda>p. py_in p plain_context) auth_patterns" by code_simp
  have h9: "assess_try (json_loads example_lib) (risk_answer env_A) scenario_A plain_context None
            = Inr (assess (json_loads example_lib) (risk_answer env_A) scenario_A plain_context None)"
    by code_simp
  have h10: "confidence (assess (json_loads example_lib) (risk_answer env_A) scenario_A
                          plain_context None) \<le> 1"
    by code_simp
  have h11: "CallGenerateFix \<notin> set (actions agent0)" by (simp add: agent0_def)
  from scenario_A_scores_and_tracking_only[OF h1 h2 h3 h4 h5 h6 h7 h8 h9 h10 h11]
  show ?thesis by blast
qed

text \<open>
  The claim as first stated expects priority P1 or higher and a fix attempt. With a
  model that reports confidence 0.95 for scenario A, whose rule is a fixable
  null-pointer rule, the priority is P3 and the finding is tracked only.
\<close>

theorem scenario_A_is_P3_untouched_counterexample:
  "identify_pattern (rule_key scenario_A) = Some ''null_pointer''
   \<and> confidence (assess (json_loads example_lib) (risk_answer env_A) scenario_A plain_context None)
       = 95 / 100
   \<and> priority (assess (json_loads example_lib) (risk_answer env_A) scenario_A plain_context None)
       = ''P3''
   \<and> ''P3'' \<notin> set (auto_fix_priorities default_config)
   \<and> get_code_context env_A scenario_A = Some plain_context
   \<and> CallGenerateFix
       \<notin> set (actions (snd (process_finding example_lib default_config env_A scenario_A agent0)))
   \<and> LogTrackingOnly
       \<in> set (actions (snd (process_finding example_lib default_config env_A scenario_A agent0)))"
  by code_simp

text \<open>
  Claim C10. \<open>assess\<close> is a total function into assessments, so nothing is raised to
  its caller; on every input on which its \<open>try\<close> block raises, in the heuristics
  included, it returns risk score 7, priority P1, the three sub-scores 7, confidence
  0.5 and the SLA of 1 week. P1 is in the default auto-fix set: when the finding has a
  code context and is not dismissed as a false positive, such an error takes the
  workflow into the automated-fix branch and not into the tracking-only branch.
\<close>

theorem assess_error_gives_P1_and_fix_path:
  "(assess_try loads answer f ctx rd = Inl err
     \<longrightarrow> risk_score (assess loads answer f ctx rd) = 7
         \<and> priority (assess loads answer f ctx rd) = ''P1''
         \<and> exploitability (assess loads answer f ctx rd) = 7
         \<and> impact (assess loads answer f ctx rd) = 7
         \<and> exposure (assess loads answer f ctx rd) = 7
         \<and> confidence (assess loads answer f ctx rd) = 1 / 2
         \<and> recommended_sla (assess loads answer f ctx rd) = ''1 week'')
   \<and> ''P1'' \<in> set (auto_fix_priorities default_config)
   \<and> (get_code_context e g = Some cc \<and> cc \<noteq> []
       \<and> \<not> (truthy (is_false_positive (analyze lib (fp_answer e) g cc (rule_details e)))
             \<and> fp_confidence (analyze lib (fp_answer e) g cc (rule_details e))
                   \<ge> fp_min_confidence default_config)
       \<and> assess_try (json_loads lib) (risk_answer e) g cc (rule_details e) = Inl perr
       \<and> LogTrackingOnly \<notin> set (actions s)
     \<longrightarrow> LogAttemptFix \<in> set (actions (snd (process_finding lib default_config e g s)))
         \<and> LogTrackingOnly \<notin> set (actions (snd (process_finding lib default_config e g s))))"
proof -
  have first: "assess_try loads answer f ctx rd = Inl err
     \<longrightarrow> risk_score (assess loads answer f ctx rd) = 7
         \<and> priority (assess loads answer f ctx rd) = ''P1''
         \<and> exploitability (assess loads answer f ctx rd) = 7
         \<and> impact (assess loads answer f ctx rd) = 7
         \<and> exposure (assess loads answer f ctx rd) = 7
         \<and> confidence (assess loads answer f ctx rd) = 1 / 2
         \<and> recommended_sla (assess loads answer f ctx rd) = ''1 week''"
    by (simp add: assess_def error_assessment_def)
  have second: "''P1'' \<in> set (auto_fix_priorities default_config)"
    by (simp add: default_config_def)
  have third: "get_code_context e g = Some cc \<and> cc \<noteq> []
       \<and> \<not> (truthy (is_false_positive (analyze lib (fp_answer e) g cc (rule_details e)))
             \<and> fp_confidence (analyze lib (fp_answer e) g cc (rule_details e))
                   \<ge> fp_min_confidence default_config)
       \<and> assess_try (json_loads lib) (risk_answer e) g cc (rule_details e) = Inl perr
       \<and> LogTrackingOnly \<notin> set (actions s)
     \<longrightarrow> LogAttemptFix \<in> set (actions (snd (process_finding lib default_config e g s)))
         \<and> LogTrackingOnly \<notin> set (actions (snd (process_finding lib default_config e g s)))"
  proof (rule impI)
    assume h: "get_code_context e g = Some cc \<and> cc \<noteq> []
       \<and> \<not> (truthy (is_false_positive (analyze lib (fp_answer e) g cc (rule_details e)))
             \<and> fp_confidence (analyze lib (fp_answer e) g cc (rule_details e))
                   \<ge> fp_min_confidence default_config)
       \<and> assess_try (json_loads lib) (risk_answer e) g cc (rule_details e) = Inl perr
       \<and> LogTrackingOnly \<notin> set (actions s)"
    then have p: "priority (assess (json_loads lib) (risk_answer e) g cc (rule_details e))
                    \<in> set (auto_fix_priorities default_config)"
      by (simp add: assess_def error_assessment_def default_config_def)
    have n1: "\<not> routine_call LogAttemptFix" by simp
    have n2: "\<not> routine_call LogTrackingOnly" by simp
    have a: "LogAttemptFix \<in> set (actions (snd (process_finding lib default_config e g s)))"
      using process_finding_mem[OF n1, of lib default_config e g s] h p by auto
    have b: "LogTrackingOnly \<notin> set (actions (snd (process_finding lib default_config e g s)))"
      using process_finding_mem[OF n2, of lib default_config e g s] h p by auto
    from a b show "LogAttemptFix \<in> set (actions (snd (process_finding lib default_config e g s)))
         \<and> LogTrackingOnly \<notin> set (actions (snd (process_finding lib default_config e g s)))"
      by (rule conjI)
  qed
  from first second third show ?thesis by blast
qed

theorem assess_error_gives_P1_and_fix_path_witness:
  "priority (assess (json_loads example_lib) (risk_answer env_odd_rule) scenario_A plain_context
               (rule_details env_odd_rule)) = ''P1''
   \<and> risk_score (assess (json_loads example_lib) (risk_answer env_odd_rule) scenario_A plain_context
               (rule_details env_odd_rule)) = 7
   \<and> LogAttemptFix
       \<in> set (actions (snd (process_finding example_lib default_config env_odd_rule scenario_A agent0)))
   \<and> LogTrackingOnly
       \<notin> set (actions (snd (process_finding example_lib default_config env_odd_rule scenario_A agent0)))"
proof -
  have h1: "assess_try (json_loads example_lib) (risk_answer env_odd_rule) scenario_A plain_context
              (rule_details env_odd_rule) = Inl (AttributeError ''object has no attribute lower'')"
    by code_simp
  have h2: "get_code_context env_odd_rule scenario_A = Some plain_context \<and> plain_context \<noteq> []
       \<and> \<not> (truthy (is_false_positive (analyze example_lib (fp_answer env_odd_rule) scenario_A
                                          plain_context (rule_details env_odd_rule)))
             \<and> fp_confidence (analyze example_lib (fp_answer env_odd_rule) scenario_A
                                 plain_context (rule_details env_odd_rule))
                   \<ge> fp_min_confidence default_config)
       \<and> assess_try (json_loads example_lib) (risk_answer env_odd_rule) scenario_A plain_context
           (rule_details env_odd_rule) = Inl (AttributeError ''object has no attribute lower'')
       \<and> LogTrackingOnly \<notin> set (actions agent0)"
    by code_simp
  note t = assess_error_gives_P1_and_fix_path
             [where loads = "json_loads example_lib" and answer = "risk_answer env_odd_rule"
                and f = scenario_A and ctx = plain_context and rd = "rule_details env_odd_rule"
                and err = "AttributeError ''object has no attribute lower''"
                and e = env_odd_rule and g = scenario_A and cc = plain_context
                and lib = example_lib and perr = "AttributeError ''object has no attribute lower''"
                and s = agent0]
  from t h1 have a: "risk_score (assess (json_loads example_lib) (risk_answer env_odd_rule) scenario_A
                        plain_context (rule_details env_odd_rule)) = 7
                  \<and> priority (assess (json_loads example_lib) (risk_answer env_odd_rule) scenario_A
                        plain_context (rule_details env_odd_rule)) = ''P1''"
    by blast
  from t h2 have b: "LogAttemptFix
       \<in> set (actions (snd (process_finding example_lib default_config env_odd_rule scenario_A agent0)))
   \<and> LogTrackingOnly
       \<notin> set (actions (snd (process_finding example_lib default_config env_odd_rule scenario_A agent0)))"
    by blast
  from a b show ?thesis by blast
qed

end
